theory Spec2Isabelle
  imports Main
begin

section \<open>Python values, exceptions and results\<close>

text \<open>
  The two services \<^verbatim>\<open>src/app.py\<close> and \<^verbatim>\<open>src/aws-internet-observer.py\<close> are modelled
  side by side: a definition prefixed \<open>app_\<close> embeds the function of that name of
  \<^verbatim>\<open>src/app.py\<close>, a definition prefixed \<open>obs_\<close> the one of
  \<^verbatim>\<open>src/aws-internet-observer.py\<close>. Unprefixed definitions model the libraries both
  files call (sqlite3, socket, subprocess, requests, Flask's request object).

  A timestamp is the reading of \<^verbatim>\<open>datetime.utcnow()\<close>, in microseconds. SQLite stores it
  as ISO text of fixed field widths, whose text order is the chronological order.
  A Python \<^verbatim>\<open>str\<close> is a \<open>string\<close>, one \<open>char\<close> for each of its characters, so that \<open>length\<close>
  is \<^verbatim>\<open>len\<close> and \<open>take 2000\<close> is the slice \<^verbatim>\<open>[:2000]\<close>.
\<close>

type_synonym timestamp = nat

text \<open>
  An exception is its class name and its \<^verbatim>\<open>str(e)\<close>. Every exception of the model is an
  instance of \<^verbatim>\<open>Exception\<close>, which is what \<^verbatim>\<open>except Exception\<close> catches.
\<close>

datatype exn = Exn string string

fun str_exn :: "exn \<Rightarrow> string" where
  "str_exn (Exn cls msg) = msg"

datatype 'a outcome = Returns 'a | Raises exn

definition bind_outcome :: "'a outcome \<Rightarrow> ('a \<Rightarrow> 'b outcome) \<Rightarrow> 'b outcome" where
  "bind_outcome m f = (case m of Raises e \<Rightarrow> Raises e | Returns v \<Rightarrow> f v)"

text \<open>\<^verbatim>\<open>try: body except Exception as e: handler\<close>\<close>

definition try_except :: "'a outcome \<Rightarrow> (exn \<Rightarrow> 'a outcome) \<Rightarrow> 'a outcome" where
  "try_except body handler = (case body of Returns v \<Rightarrow> Returns v | Raises e \<Rightarrow> handler e)"

text \<open>\<^verbatim>\<open>str(n)\<close> of a Python int.\<close>

definition digit_char :: "nat \<Rightarrow> char" where
  "digit_char d = ''0123456789'' ! d"

fun str_nat :: "nat \<Rightarrow> string" where
  "str_nat n = (if n < 10 then [digit_char n] else str_nat (n div 10) @ [digit_char (n mod 10)])"

declare str_nat.simps [simp del]

definition str_int :: "int \<Rightarrow> string" where
  "str_int i = (if i < 0 then CHR ''-'' # str_nat (nat (- i)) else str_nat (nat i))"

text \<open>\<^verbatim>\<open>int(ok)\<close> of a Python bool.\<close>

definition int_of_bool :: "bool \<Rightarrow> int" where
  "int_of_bool b = (if b then 1 else 0)"

text \<open>\<^verbatim>\<open>s.startswith(p)\<close>\<close>

definition startswith :: "string \<Rightarrow> string \<Rightarrow> bool" where
  "startswith s p = (take (length p) s = p)"

text \<open>\<^verbatim>\<open>s.split(" ", 1)\<close>: cut at the first space, if there is one.\<close>

definition split_space_1 :: "string \<Rightarrow> string list" where
  "split_space_1 s =
     (case dropWhile (\<lambda>c. c \<noteq> CHR '' '') s of
        [] \<Rightarrow> [s]
      | _ # rest \<Rightarrow> [takeWhile (\<lambda>c. c \<noteq> CHR '' '') s, rest])"

text \<open>\<^verbatim>\<open>xs[i]\<close> for \<open>i \<ge> 0\<close>: IndexError out of range.\<close>

definition py_index :: "'a list \<Rightarrow> nat \<Rightarrow> 'a outcome" where
  "py_index xs i =
     (if i < length xs then Returns (xs ! i)
      else Raises (Exn ''IndexError'' ''list index out of range''))"

text \<open>
  The JSON value that \<^verbatim>\<open>request.get_json\<close> parses from a request body. Numbers are
  Python ints; fractional numbers are not modelled.
\<close>

datatype json =
    JNull
  | JBool bool
  | JInt int
  | JStr string
  | JArr "json list"
  | JObj "(string \<times> json) list"

text \<open>Python truthiness of a parsed JSON value (\<^verbatim>\<open>None\<close> is \<open>JNull\<close>).\<close>

fun truthy :: "json \<Rightarrow> bool" where
  "truthy JNull = False"
| "truthy (JBool b) = b"
| "truthy (JInt i) = (i \<noteq> 0)"
| "truthy (JStr s) = (s \<noteq> [])"
| "truthy (JArr xs) = (xs \<noteq> [])"
| "truthy (JObj kvs) = (kvs \<noteq> [])"

text \<open>\<^verbatim>\<open>a or b\<close>\<close>

definition py_or :: "json \<Rightarrow> json \<Rightarrow> json" where
  "py_or a b = (if truthy a then a else b)"

text \<open>
  \<^verbatim>\<open>data.get("ip")\<close>: the entry of a dict, \<^verbatim>\<open>None\<close> when the key is missing. Only a dict
  has the method; on any other value the attribute lookup raises AttributeError.
\<close>

fun py_get :: "json \<Rightarrow> string \<Rightarrow> json outcome" where
  "py_get (JObj kvs) k = Returns (case map_of kvs k of None \<Rightarrow> JNull | Some v \<Rightarrow> v)"
| "py_get JNull k = Raises (Exn ''AttributeError'' ''NoneType object has no attribute get'')"
| "py_get (JBool b) k = Raises (Exn ''AttributeError'' ''bool object has no attribute get'')"
| "py_get (JInt i) k = Raises (Exn ''AttributeError'' ''int object has no attribute get'')"
| "py_get (JStr s) k = Raises (Exn ''AttributeError'' ''str object has no attribute get'')"
| "py_get (JArr xs) k = Raises (Exn ''AttributeError'' ''list object has no attribute get'')"

text \<open>The Python objects handed to \<^verbatim>\<open>jsonify\<close> as a response body.\<close>

datatype pyval =
    PyNone
  | PyBool bool
  | PyInt int
  | PyStr string
  | PyDatetime timestamp
  | PyList "pyval list"
  | PyDict "(string \<times> pyval) list"

record http_response =
  body :: pyval
  status :: int

section \<open>The SQLite store\<close>

text \<open>
  The two relations of \<^verbatim>\<open>init_db\<close>'s schema. A relation is the list of its rows in
  insertion order. Both \<open>id\<close> columns are \<^verbatim>\<open>INTEGER PRIMARY KEY\<close>; \<open>ip\<close>, \<open>method\<close>
  and \<open>detail\<close> are \<^verbatim>\<open>TEXT\<close>, \<open>reachable\<close> is \<^verbatim>\<open>INTEGER\<close>.
\<close>

record ip_current_row =
  ic_id :: int
  ic_ip :: string
  ic_updated_at :: timestamp

record checks_row =
  ck_id :: int
  ck_ip :: string
  ck_time :: timestamp
  ck_reachable :: int
  ck_method :: string
  ck_detail :: string

record database =
  ip_current :: "ip_current_row list"
  checks :: "checks_row list"

text \<open>The store right after \<^verbatim>\<open>init_db\<close> on a fresh file.\<close>

definition init_db :: database where
  "init_db = \<lparr>ip_current = [], checks = []\<rparr>"

text \<open>The two writing statements of the sources, with their bound parameters.\<close>

datatype sql_write =
    Replace_ip_current string timestamp
      \<comment> \<open>\<^verbatim>\<open>INSERT OR REPLACE INTO ip_current (id, ip, updated_at) VALUES (1, ?, ?)\<close>\<close>
  | Insert_check string timestamp int string string
      \<comment> \<open>\<^verbatim>\<open>INSERT INTO checks (ip, time, reachable, method, detail) VALUES (?, ?, ?, ?, ?)\<close>\<close>

text \<open>The rowid SQLite gives a row inserted without one: one more than the largest.\<close>

definition next_rowid :: "checks_row list \<Rightarrow> int" where
  "next_rowid rows = foldr max (map ck_id rows) 0 + 1"

fun apply_write :: "sql_write \<Rightarrow> database \<Rightarrow> database" where
  "apply_write (Replace_ip_current a t) db =
     db\<lparr>ip_current :=
          filter (\<lambda>r. ic_id r \<noteq> 1) (ip_current db)
          @ [\<lparr>ic_id = 1, ic_ip = a, ic_updated_at = t\<rparr>]\<rparr>"
| "apply_write (Insert_check a t r m d) db =
     db\<lparr>checks :=
          checks db
          @ [\<lparr>ck_id = next_rowid (checks db), ck_ip = a, ck_time = t,
               ck_reachable = r, ck_method = m, ck_detail = d\<rparr>]\<rparr>"

text \<open>
  A connection: the database file as every connection sees it, and the writes this
  connection has executed and not yet committed. \<^verbatim>\<open>commit\<close> publishes them all at once;
  \<^verbatim>\<open>close\<close> drops what was not committed.
\<close>

record connection =
  db_file :: database
  pending :: "sql_write list"

definition sqlite3_connect :: "database \<Rightarrow> connection" where
  "sqlite3_connect db = \<lparr>db_file = db, pending = []\<rparr>"

definition execute :: "sql_write \<Rightarrow> connection \<Rightarrow> connection" where
  "execute wr c = c\<lparr>pending := pending c @ [wr]\<rparr>"

definition commit :: "connection \<Rightarrow> connection" where
  "commit c = \<lparr>db_file = fold apply_write (pending c) (db_file c), pending = []\<rparr>"

definition close :: "connection \<Rightarrow> connection" where
  "close c = c\<lparr>pending := []\<rparr>"

text \<open>\<^verbatim>\<open>cur.fetchone()\<close>: the first row of the result, or \<^verbatim>\<open>None\<close>.\<close>

definition fetchone :: "'a list \<Rightarrow> 'a option" where
  "fetchone rows = (case rows of [] \<Rightarrow> None | r # _ \<Rightarrow> Some r)"

text \<open>\<^verbatim>\<open>SELECT ip FROM ip_current WHERE id = 1\<close>\<close>

definition select_ip :: "database \<Rightarrow> string list" where
  "select_ip db = map ic_ip (filter (\<lambda>r. ic_id r = 1) (ip_current db))"

text \<open>\<^verbatim>\<open>SELECT ip, updated_at FROM ip_current WHERE id = 1\<close>\<close>

definition select_ip_updated_at :: "database \<Rightarrow> (string \<times> timestamp) list" where
  "select_ip_updated_at db =
     map (\<lambda>r. (ic_ip r, ic_updated_at r)) (filter (\<lambda>r. ic_id r = 1) (ip_current db))"

text \<open>
  \<^verbatim>\<open>ORDER BY time DESC\<close>. SQL leaves the order of rows of equal time open; the model
  keeps them in insertion order.
\<close>

fun insert_time_desc :: "checks_row \<Rightarrow> checks_row list \<Rightarrow> checks_row list" where
  "insert_time_desc r [] = [r]"
| "insert_time_desc r (x # xs) =
     (if ck_time x \<le> ck_time r then r # x # xs else x # insert_time_desc r xs)"

definition order_by_time_desc :: "checks_row list \<Rightarrow> checks_row list" where
  "order_by_time_desc rows = foldr insert_time_desc rows []"

text \<open>\<^verbatim>\<open>FROM checks ORDER BY time DESC LIMIT n\<close>, before the column list is applied.\<close>

definition checks_latest :: "nat \<Rightarrow> database \<Rightarrow> checks_row list" where
  "checks_latest n db = take n (order_by_time_desc (checks db))"

text \<open>
  \<^verbatim>\<open>dict(row)\<close> of a row of \<^verbatim>\<open>SELECT time, reachable, method, detail\<close> and of
  \<^verbatim>\<open>SELECT time, ip, reachable, method, detail\<close>. The connection of \<^verbatim>\<open>get_db\<close> converts
  \<^verbatim>\<open>TIMESTAMP\<close> columns back to datetimes.
\<close>

definition dict_time_reachable_method_detail :: "checks_row \<Rightarrow> pyval" where
  "dict_time_reachable_method_detail r =
     PyDict [(''time'', PyDatetime (ck_time r)), (''reachable'', PyInt (ck_reachable r)),
             (''method'', PyStr (ck_method r)), (''detail'', PyStr (ck_detail r))]"

definition dict_time_ip_reachable_method_detail :: "checks_row \<Rightarrow> pyval" where
  "dict_time_ip_reachable_method_detail r =
     PyDict [(''time'', PyDatetime (ck_time r)), (''ip'', PyStr (ck_ip r)),
             (''reachable'', PyInt (ck_reachable r)),
             (''method'', PyStr (ck_method r)), (''detail'', PyStr (ck_detail r))]"

section \<open>The network and the libraries that reach it\<close>

text \<open>
  What the outside world answers to the calls of the probes. \<open>subprocess_run\<close> is
  \<^verbatim>\<open>subprocess.run(argv, stdout=PIPE, stderr=PIPE)\<close> with the output already decoded
  (\<^verbatim>\<open>decode(errors="ignore")\<close> does not raise); \<open>socket_connect\<close> is \<^verbatim>\<open>s.connect((ip, port))\<close>
  on a socket with the given timeout; \<open>socket_close\<close> is \<^verbatim>\<open>s.close()\<close>; \<open>http_exchange\<close>
  is one HTTP request and its response, for a URL and a timeout.
\<close>

record completed_process =
  returncode :: int
  stdout :: string

record response =
  status_code :: int
  location :: "string option"

record world =
  subprocess_run :: "string list \<Rightarrow> completed_process outcome"
  socket_connect :: "string \<Rightarrow> int \<Rightarrow> int \<Rightarrow> unit outcome"
  socket_close :: "string \<Rightarrow> int \<Rightarrow> unit outcome"
  http_exchange :: "string \<Rightarrow> int \<Rightarrow> response outcome"

text \<open>
  \<^verbatim>\<open>socket.settimeout(value)\<close>: a negative value raises ValueError. Creating the socket
  itself is taken to succeed.
\<close>

definition settimeout :: "int \<Rightarrow> unit outcome" where
  "settimeout t =
     (if t < 0 then Raises (Exn ''ValueError'' ''Timeout value out of range'')
      else Returns ())"

text \<open>
  \<^verbatim>\<open>requests.get(url, timeout=timeout)\<close>. With its defaults, requests follows a response
  that is a redirect (a redirect status with a Location header) to the Location, up to
  30 times, and returns the last response; one redirect more raises TooManyRedirects.
  A Location is taken as an absolute URL.
\<close>

definition is_redirect :: "response \<Rightarrow> bool" where
  "is_redirect r =
     (case location r of None \<Rightarrow> False | Some _ \<Rightarrow> status_code r \<in> {301, 302, 303, 307, 308})"

fun resolve_redirects :: "world \<Rightarrow> int \<Rightarrow> nat \<Rightarrow> response \<Rightarrow> response outcome" where
  "resolve_redirects w timeout n r =
     (if is_redirect r then
        (case n of
           0 \<Rightarrow> Raises (Exn ''TooManyRedirects'' ''Exceeded 30 redirects.'')
         | Suc m \<Rightarrow>
             (case location r of
                None \<Rightarrow> Returns r
              | Some url \<Rightarrow>
                  bind_outcome (http_exchange w url timeout) (resolve_redirects w timeout m)))
      else Returns r)"

declare resolve_redirects.simps [simp del]

definition requests_get :: "world \<Rightarrow> string \<Rightarrow> int \<Rightarrow> response outcome" where
  "requests_get w url timeout =
     bind_outcome (http_exchange w url timeout) (resolve_redirects w timeout 30)"

section \<open>The probes\<close>

text \<open>
  Each probe is modelled with the result type \<open>(bool \<times> string) outcome\<close>, so that an
  exception leaving the function is a value of the model, \<open>Raises e\<close>.
\<close>

subsection \<open>\<^verbatim>\<open>src/app.py\<close>\<close>

definition app_ping_icmp :: "world \<Rightarrow> string \<Rightarrow> int \<Rightarrow> (bool \<times> string) outcome" where
  "app_ping_icmp w ip timeout =
     try_except
       (bind_outcome (subprocess_run w [''ping'', ''-c'', ''2'', ''-W'', str_int timeout, ip])
          (\<lambda>res. let ok = (returncode res = 0); detail = take 2000 (stdout res)
                 in Returns (ok, detail)))
       (\<lambda>e. Returns (False, str_exn e))"

definition app_tcp_connect :: "world \<Rightarrow> string \<Rightarrow> int \<Rightarrow> int \<Rightarrow> (bool \<times> string) outcome" where
  "app_tcp_connect w ip port timeout =
     bind_outcome (settimeout timeout)
       (\<lambda>_. try_except
               (bind_outcome (socket_connect w ip port timeout)
                  (\<lambda>_. bind_outcome (socket_close w ip port)
                          (\<lambda>_. Returns (True, ''tcp:'' @ str_int port @ '' ok''))))
               (\<lambda>e. Returns (False, str_exn e)))"

definition app_http_get :: "world \<Rightarrow> string \<Rightarrow> string \<Rightarrow> int \<Rightarrow> (bool \<times> string) outcome" where
  "app_http_get w ip path timeout =
     (let url = ''http://'' @ ip @ path
      in try_except
           (bind_outcome (requests_get w url timeout)
              (\<lambda>r. Returns (status_code r = 200, ''status:'' @ str_int (status_code r))))
           (\<lambda>e. Returns (False, str_exn e)))"

subsection \<open>\<^verbatim>\<open>src/aws-internet-observer.py\<close>\<close>

definition obs_ping_icmp :: "world \<Rightarrow> string \<Rightarrow> int \<Rightarrow> (bool \<times> string) outcome" where
  "obs_ping_icmp w ip timeout =
     try_except
       (bind_outcome (subprocess_run w [''ping'', ''-c'', ''2'', ''-W'', str_int timeout, ip])
          (\<lambda>res. let ok = (returncode res = 0); detail = take 2000 (stdout res)
                 in Returns (ok, detail)))
       (\<lambda>e. Returns (False, str_exn e))"

definition obs_tcp_connect :: "world \<Rightarrow> string \<Rightarrow> int \<Rightarrow> int \<Rightarrow> (bool \<times> string) outcome" where
  "obs_tcp_connect w ip port timeout =
     bind_outcome (settimeout timeout)
       (\<lambda>_. try_except
               (bind_outcome (socket_connect w ip port timeout)
                  (\<lambda>_. bind_outcome (socket_close w ip port)
                          (\<lambda>_. Returns (True, ''tcp:'' @ str_int port @ '' ok''))))
               (\<lambda>e. Returns (False, str_exn e)))"

definition obs_http_get :: "world \<Rightarrow> string \<Rightarrow> string \<Rightarrow> int \<Rightarrow> (bool \<times> string) outcome" where
  "obs_http_get w ip path timeout =
     (let url = ''http://'' @ ip @ path
      in try_except
           (bind_outcome (requests_get w url timeout)
              (\<lambda>r. Returns (status_code r = 200, ''status:'' @ str_int (status_code r))))
           (\<lambda>e. Returns (False, str_exn e)))"

section \<open>The probe round: \<^verbatim>\<open>do_check\<close>\<close>

text \<open>
  The environment-provided configuration the two files read at import time.
\<close>

record config =
  API_TOKEN :: string
  HTTP_CHECK_PATH :: string

text \<open>
  \<^verbatim>\<open>do_check\<close> is modelled by the trace of what it does to the outside, in order: the
  probes it runs, the statements it executes on its own connection, its commit and its
  close; together with the exception that ended it, if one did. The trace is then run
  on the connection. (\<^verbatim>\<open>ensure_db_dir\<close>, which \<^verbatim>\<open>src/app.py\<close> calls first, creates the
  directory of the database file when it is missing; the model starts from an existing
  database, so the call changes nothing and leaves no event.)
\<close>

datatype event =
    Probe_icmp string
  | Probe_tcp string int
  | Probe_http string
  | Execute sql_write
  | Commit
  | Close

fun run_event :: "event \<Rightarrow> connection \<Rightarrow> connection" where
  "run_event (Execute wr) c = execute wr c"
| "run_event Commit c = commit c"
| "run_event Close c = close c"
| "run_event (Probe_icmp a) c = c"
| "run_event (Probe_tcp a p) c = c"
| "run_event (Probe_http a) c = c"

definition run_events :: "event list \<Rightarrow> connection \<Rightarrow> connection" where
  "run_events evs c = fold run_event evs c"

subsection \<open>\<^verbatim>\<open>src/app.py\<close>\<close>

text \<open>The loop \<^verbatim>\<open>for port in (80, 443)\<close>.\<close>

fun app_do_check_ports :: "world \<Rightarrow> string \<Rightarrow> timestamp \<Rightarrow> int list \<Rightarrow> event list \<times> exn option" where
  "app_do_check_ports w ip ts [] = ([], None)"
| "app_do_check_ports w ip ts (port # ports) =
     (case app_tcp_connect w ip port 3 of
        Raises e \<Rightarrow> ([Probe_tcp ip port], Some e)
      | Returns (ok2, d2) \<Rightarrow>
          (case app_do_check_ports w ip ts ports of
             (evs, ex) \<Rightarrow>
               (Probe_tcp ip port
                # Execute (Insert_check ip ts (int_of_bool ok2) (''tcp:'' @ str_int port) (take 2000 d2))
                # evs, ex)))"

text \<open>The body of \<^verbatim>\<open>do_check\<close> from \<^verbatim>\<open>ip = row[0]\<close> and \<^verbatim>\<open>ts = datetime.utcnow()\<close> on.\<close>

definition app_do_check_round :: "config \<Rightarrow> world \<Rightarrow> timestamp \<Rightarrow> string \<Rightarrow> event list \<times> exn option" where
  "app_do_check_round cfg w ts ip =
     (case app_ping_icmp w ip 2 of
        Raises e \<Rightarrow> ([Probe_icmp ip], Some e)
      | Returns (ok, detail) \<Rightarrow>
          (let ev1 = [Probe_icmp ip,
                      Execute (Insert_check ip ts (int_of_bool ok) ''icmp'' (take 2000 detail))]
           in case app_do_check_ports w ip ts [80, 443] of
                (ev2, Some e) \<Rightarrow> (ev1 @ ev2, Some e)
              | (ev2, None) \<Rightarrow>
                  (case app_http_get w ip (HTTP_CHECK_PATH cfg) 5 of
                     Raises e \<Rightarrow> (ev1 @ ev2 @ [Probe_http ip], Some e)
                   | Returns (ok3, d3) \<Rightarrow>
                       (ev1 @ ev2
                        @ [Probe_http ip,
                           Execute (Insert_check ip ts (int_of_bool ok3) ''http'' (take 2000 d3)),
                           Commit, Close], None))))"

text \<open>
  \<^verbatim>\<open>do_check\<close>: the database file afterwards, the trace, and the exception that left
  the function, if any. \<open>ts\<close> is what \<^verbatim>\<open>datetime.utcnow()\<close> returns when the round reads it.
\<close>

definition app_do_check :: "config \<Rightarrow> world \<Rightarrow> timestamp \<Rightarrow> database \<Rightarrow> database \<times> event list \<times> exn option" where
  "app_do_check cfg w ts db =
     (let c = sqlite3_connect db
      in case fetchone (select_ip (db_file c)) of
           None \<Rightarrow> (db_file (run_events [Close] c), [Close], None)
         | Some ip \<Rightarrow>
             (case app_do_check_round cfg w ts ip of
                (evs, ex) \<Rightarrow> (db_file (run_events evs c), evs, ex)))"

subsection \<open>\<^verbatim>\<open>src/aws-internet-observer.py\<close>\<close>

fun obs_do_check_ports :: "world \<Rightarrow> string \<Rightarrow> timestamp \<Rightarrow> int list \<Rightarrow> event list \<times> exn option" where
  "obs_do_check_ports w ip ts [] = ([], None)"
| "obs_do_check_ports w ip ts (port # ports) =
     (case obs_tcp_connect w ip port 3 of
        Raises e \<Rightarrow> ([Probe_tcp ip port], Some e)
      | Returns (ok2, d2) \<Rightarrow>
          (case obs_do_check_ports w ip ts ports of
             (evs, ex) \<Rightarrow>
               (Probe_tcp ip port
                # Execute (Insert_check ip ts (int_of_bool ok2) (''tcp:'' @ str_int port) (take 2000 d2))
                # evs, ex)))"

definition obs_do_check_round :: "config \<Rightarrow> world \<Rightarrow> timestamp \<Rightarrow> string \<Rightarrow> event list \<times> exn option" where
  "obs_do_check_round cfg w ts ip =
     (case obs_ping_icmp w ip 2 of
        Raises e \<Rightarrow> ([Probe_icmp ip], Some e)
      | Returns (ok, detail) \<Rightarrow>
          (let ev1 = [Probe_icmp ip,
                      Execute (Insert_check ip ts (int_of_bool ok) ''icmp'' (take 2000 detail))]
           in case obs_do_check_ports w ip ts [80, 443] of
                (ev2, Some e) \<Rightarrow> (ev1 @ ev2, Some e)
              | (ev2, None) \<Rightarrow>
                  (case obs_http_get w ip (HTTP_CHECK_PATH cfg) 5 of
                     Raises e \<Rightarrow> (ev1 @ ev2 @ [Probe_http ip], Some e)
                   | Returns (ok3, d3) \<Rightarrow>
                       (ev1 @ ev2
                        @ [Probe_http ip,
                           Execute (Insert_check ip ts (int_of_bool ok3) ''http'' (take 2000 d3)),
                           Commit, Close], None))))"

definition obs_do_check :: "config \<Rightarrow> world \<Rightarrow> timestamp \<Rightarrow> database \<Rightarrow> database \<times> event list \<times> exn option" where
  "obs_do_check cfg w ts db =
     (let c = sqlite3_connect db
      in case fetchone (select_ip (db_file c)) of
           None \<Rightarrow> (db_file (run_events [Close] c), [Close], None)
         | Some ip \<Rightarrow>
             (case obs_do_check_round cfg w ts ip of
                (evs, ex) \<Rightarrow> (db_file (run_events evs c), evs, ex)))"

subsection \<open>A round among other writers\<close>

text \<open>
  While a round is in flight the request handlers keep running. \<open>other i\<close> lists the
  overwrites of the tracked address (address and time of each \<^verbatim>\<open>update_ip\<close>) that other
  connections commit just before the round's \<open>i\<close>-th event. SQLite's locking allows
  fewer interleavings than this; the model allows every one.
\<close>

fun run_events_among :: "(nat \<Rightarrow> (string \<times> timestamp) list) \<Rightarrow> nat \<Rightarrow> event list \<Rightarrow> connection \<Rightarrow> connection" where
  "run_events_among other i [] c = c"
| "run_events_among other i (ev # evs) c =
     run_events_among other (Suc i) evs
       (run_event ev
          (c\<lparr>db_file := fold apply_write (map (\<lambda>(a, t). Replace_ip_current a t) (other i)) (db_file c)\<rparr>))"

definition app_do_check_among :: "config \<Rightarrow> world \<Rightarrow> timestamp \<Rightarrow> (nat \<Rightarrow> (string \<times> timestamp) list) \<Rightarrow> database \<Rightarrow> database \<times> event list \<times> exn option" where
  "app_do_check_among cfg w ts other db =
     (let c = sqlite3_connect db
      in case fetchone (select_ip (db_file c)) of
           None \<Rightarrow> (db_file (run_events_among other 0 [Close] c), [Close], None)
         | Some ip \<Rightarrow>
             (case app_do_check_round cfg w ts ip of
                (evs, ex) \<Rightarrow> (db_file (run_events_among other 0 evs c), evs, ex)))"

definition obs_do_check_among :: "config \<Rightarrow> world \<Rightarrow> timestamp \<Rightarrow> (nat \<Rightarrow> (string \<times> timestamp) list) \<Rightarrow> database \<Rightarrow> database \<times> event list \<times> exn option" where
  "obs_do_check_among cfg w ts other db =
     (let c = sqlite3_connect db
      in case fetchone (select_ip (db_file c)) of
           None \<Rightarrow> (db_file (run_events_among other 0 [Close] c), [Close], None)
         | Some ip \<Rightarrow>
             (case obs_do_check_round cfg w ts ip of
                (evs, ex) \<Rightarrow> (db_file (run_events_among other 0 evs c), evs, ex)))"

section \<open>The HTTP endpoints\<close>

text \<open>
  What a handler reads of the Flask request: the Authorization header (\<open>None\<close> when
  absent), the result of \<^verbatim>\<open>request.get_json(force=True, silent=True)\<close> (\<open>None\<close> when the
  body is not parseable JSON) and \<^verbatim>\<open>request.remote_addr\<close>.

  A handler returns the response, or the exception that leaves it (which Flask answers
  with status 500), and the database file afterwards.
\<close>

record request =
  authorization :: "string option"
  get_json :: "json option"
  remote_addr :: "string option"

type_synonym handler = "database \<Rightarrow> http_response outcome \<times> database"

definition unauthorized :: http_response where
  "unauthorized = \<lparr>body = PyDict [(''error'', PyStr ''unauthorized'')], status = 401\<rparr>"

definition no_ip_provided :: http_response where
  "no_ip_provided = \<lparr>body = PyDict [(''error'', PyStr ''no ip provided'')], status = 400\<rparr>"

text \<open>
  Binding a list or a dict as an SQL parameter is refused by sqlite3 (the exception class
  depends on the Python version).
\<close>

definition binding_error :: exn where
  "binding_error = Exn ''InterfaceError'' ''Error binding parameter 0 - probably unsupported type.''"

text \<open>An int is bound as a 64-bit SQLite INTEGER; a larger one is refused.\<close>

definition int_too_large :: exn where
  "int_too_large = Exn ''OverflowError'' ''Python int too large to convert to SQLite INTEGER''"

text \<open>
  The handlers open their connection with \<^verbatim>\<open>get_db\<close>; \<^verbatim>\<open>close_connection\<close> closes it when
  the request ends.
\<close>

definition get_db :: "database \<Rightarrow> connection" where
  "get_db db = sqlite3_connect db"

subsection \<open>\<^verbatim>\<open>src/app.py\<close>\<close>

text \<open>The decorator \<^verbatim>\<open>require_token\<close>.\<close>

definition app_require_token :: "config \<Rightarrow> request \<Rightarrow> handler \<Rightarrow> handler" where
  "app_require_token cfg req f db =
     (let auth = (case authorization req of None \<Rightarrow> [] | Some a \<Rightarrow> a)
      in if \<not> startswith auth ''Bearer '' then (Returns unauthorized, db)
         else (case py_index (split_space_1 auth) 1 of
                 Raises e \<Rightarrow> (Raises e, db)
               | Returns tok \<Rightarrow>
                   if tok \<noteq> API_TOKEN cfg then (Returns unauthorized, db) else f db))"

text \<open>
  The body of \<^verbatim>\<open>update_ip\<close>. \<open>now\<close> is the \<^verbatim>\<open>datetime.utcnow()\<close> bound to the statement,
  \<open>now_iso\<close> the \<^verbatim>\<open>datetime.utcnow().isoformat()\<close> of the response. An int bound to the
  \<^verbatim>\<open>TEXT\<close> column is stored as its text, a bool as the text of its integer. The branch
  for \<^verbatim>\<open>None\<close> is never reached, since \<^verbatim>\<open>None\<close> is not truthy.
\<close>

definition app_update_ip_body :: "request \<Rightarrow> timestamp \<Rightarrow> string \<Rightarrow> handler" where
  "app_update_ip_body req now now_iso db =
     (let data = py_or (case get_json req of None \<Rightarrow> JNull | Some j \<Rightarrow> j) (JObj [])
      in case py_get data ''ip'' of
           Raises e \<Rightarrow> (Raises e, db)
         | Returns v \<Rightarrow>
             (let ip = py_or v (case remote_addr req of None \<Rightarrow> JNull | Some a \<Rightarrow> JStr a);
                  store = (\<lambda>txt echo.
                     let c = get_db db;
                         c = execute (Replace_ip_current txt now) c;
                         c = commit c
                     in (Returns \<lparr>body = PyDict [(''ok'', PyBool True), (''ip'', echo),
                                                  (''timestamp'', PyStr now_iso)],
                                  status = 200\<rparr>,
                         db_file (close c)))
              in if \<not> truthy ip then (Returns no_ip_provided, db)
                 else (case ip of
                         JStr s \<Rightarrow> store s (PyStr s)
                       | JInt i \<Rightarrow>
                           if - (2 ^ 63) \<le> i \<and> i < 2 ^ 63 then store (str_int i) (PyInt i)
                           else (Raises int_too_large, db)
                       | JBool b \<Rightarrow> store (str_int (int_of_bool b)) (PyBool b)
                       | JNull \<Rightarrow> (Returns no_ip_provided, db)
                       | JArr xs \<Rightarrow> (Raises binding_error, db)
                       | JObj kvs \<Rightarrow> (Raises binding_error, db))))"

definition app_update_ip :: "config \<Rightarrow> request \<Rightarrow> timestamp \<Rightarrow> string \<Rightarrow> handler" where
  "app_update_ip cfg req now now_iso = app_require_token cfg req (app_update_ip_body req now now_iso)"

definition app_status_body :: handler where
  "app_status_body db =
     (let row = fetchone (select_ip_updated_at db);
          last = fetchone (checks_latest 1 db);
          last_check = (case last of None \<Rightarrow> PyNone
                        | Some r \<Rightarrow> dict_time_reachable_method_detail r)
      in case row of
           None \<Rightarrow>
             (Returns \<lparr>body = PyDict [(''status'', PyStr ''no-ip''), (''last_check'', last_check)],
                       status = 200\<rparr>, db)
         | Some (ip, updated_at) \<Rightarrow>
             (Returns \<lparr>body = PyDict [(''current_ip'', PyStr ip),
                                       (''ip_updated_at'', PyDatetime updated_at),
                                       (''last_check'', last_check)],
                       status = 200\<rparr>, db))"

definition app_status :: "config \<Rightarrow> request \<Rightarrow> handler" where
  "app_status cfg req = app_require_token cfg req app_status_body"

definition app_history_body :: handler where
  "app_history_body db =
     (let rows = map dict_time_ip_reachable_method_detail (checks_latest 200 db)
      in (Returns \<lparr>body = PyList rows, status = 200\<rparr>, db))"

definition app_history :: "config \<Rightarrow> request \<Rightarrow> handler" where
  "app_history cfg req = app_require_token cfg req app_history_body"

subsection \<open>\<^verbatim>\<open>src/aws-internet-observer.py\<close>\<close>

text \<open>Here \<^verbatim>\<open>update_ip\<close> checks the token itself, and \<^verbatim>\<open>status\<close> and \<^verbatim>\<open>history\<close> check none.\<close>

definition obs_update_ip :: "config \<Rightarrow> request \<Rightarrow> timestamp \<Rightarrow> string \<Rightarrow> handler" where
  "obs_update_ip cfg req now now_iso db =
     (let auth = (case authorization req of None \<Rightarrow> [] | Some a \<Rightarrow> a)
      in if \<not> startswith auth ''Bearer '' then (Returns unauthorized, db)
         else (case py_index (split_space_1 auth) 1 of
                 Raises e \<Rightarrow> (Raises e, db)
               | Returns tok \<Rightarrow>
                   if tok \<noteq> API_TOKEN cfg then (Returns unauthorized, db)
                   else
                     (let data = py_or (case get_json req of None \<Rightarrow> JNull | Some j \<Rightarrow> j) (JObj [])
                      in case py_get data ''ip'' of
                           Raises e \<Rightarrow> (Raises e, db)
                         | Returns v \<Rightarrow>
                             (let ip = py_or v (case remote_addr req of None \<Rightarrow> JNull
                                                | Some a \<Rightarrow> JStr a);
                                  store = (\<lambda>txt echo.
                                     let c = get_db db;
                                         c = execute (Replace_ip_current txt now) c;
                                         c = commit c
                                     in (Returns \<lparr>body = PyDict [(''ok'', PyBool True), (''ip'', echo),
                                                                  (''ts'', PyStr now_iso)],
                                                  status = 200\<rparr>,
                                         db_file (close c)))
                              in if \<not> truthy ip then (Returns no_ip_provided, db)
                                 else (case ip of
                                         JStr s \<Rightarrow> store s (PyStr s)
                                       | JInt i \<Rightarrow>
                                           if - (2 ^ 63) \<le> i \<and> i < 2 ^ 63
                                           then store (str_int i) (PyInt i)
                                           else (Raises int_too_large, db)
                                       | JBool b \<Rightarrow> store (str_int (int_of_bool b)) (PyBool b)
                                       | JNull \<Rightarrow> (Returns no_ip_provided, db)
                                       | JArr xs \<Rightarrow> (Raises binding_error, db)
                                       | JObj kvs \<Rightarrow> (Raises binding_error, db))))))"

definition obs_status :: "config \<Rightarrow> request \<Rightarrow> handler" where
  "obs_status cfg req db =
     (let row = fetchone (select_ip_updated_at db)
      in case row of
           None \<Rightarrow> (Returns \<lparr>body = PyDict [(''status'', PyStr ''no-ip'')], status = 200\<rparr>, db)
         | Some (ip, updated_at) \<Rightarrow>
             (let last = fetchone (checks_latest 1 db)
              in (Returns \<lparr>body = PyDict [(''current_ip'', PyStr ip),
                                           (''ip_updated_at'', PyDatetime updated_at),
                                           (''last_check'',
                                            (case last of None \<Rightarrow> PyNone
                                             | Some r \<Rightarrow> dict_time_reachable_method_detail r))],
                           status = 200\<rparr>, db)))"

definition obs_history :: "config \<Rightarrow> request \<Rightarrow> handler" where
  "obs_history cfg req db =
     (let rows = map dict_time_ip_reachable_method_detail (checks_latest 200 db)
      in (Returns \<lparr>body = PyList rows, status = 200\<rparr>, db))"

section \<open>Runs of a service\<close>

text \<open>
  The operations that reach the store: the three endpoints and the scheduler's tick.
  A run applies a list of them, one after the other, to the store of \<^verbatim>\<open>init_db\<close>.
\<close>

datatype operation =
    Op_update_ip request timestamp string
  | Op_status request
  | Op_history request
  | Op_do_check world timestamp

fun app_step :: "config \<Rightarrow> operation \<Rightarrow> database \<Rightarrow> database" where
  "app_step cfg (Op_update_ip req now now_iso) db = snd (app_update_ip cfg req now now_iso db)"
| "app_step cfg (Op_status req) db = snd (app_status cfg req db)"
| "app_step cfg (Op_history req) db = snd (app_history cfg req db)"
| "app_step cfg (Op_do_check w ts) db = fst (app_do_check cfg w ts db)"

fun obs_step :: "config \<Rightarrow> operation \<Rightarrow> database \<Rightarrow> database" where
  "obs_step cfg (Op_update_ip req now now_iso) db = snd (obs_update_ip cfg req now now_iso db)"
| "obs_step cfg (Op_status req) db = snd (obs_status cfg req db)"
| "obs_step cfg (Op_history req) db = snd (obs_history cfg req db)"
| "obs_step cfg (Op_do_check w ts) db = fst (obs_do_check cfg w ts db)"

definition app_run :: "config \<Rightarrow> operation list \<Rightarrow> database" where
  "app_run cfg ops = fold (app_step cfg) ops init_db"

definition obs_run :: "config \<Rightarrow> operation list \<Rightarrow> database" where
  "obs_run cfg ops = fold (obs_step cfg) ops init_db"

section \<open>Concrete stores, worlds and requests\<close>

text \<open>
  The inputs at which the theorems below are evaluated: a store that tracks
  \<open>203.0.113.5\<close>, the network of the specification's scenario B, a server that redirects
  \<^verbatim>\<open>/health\<close> to its https address, a server that answers 301 with no Location header,
  a network with over-long diagnostics, and three requests that carry the valid token.
\<close>

definition example_config :: config where
  "example_config = \<lparr>API_TOKEN = ''s3cret'', HTTP_CHECK_PATH = ''/health''\<rparr>"

definition example_db :: database where
  "example_db =
     \<lparr>ip_current = [\<lparr>ic_id = 1, ic_ip = ''203.0.113.5'', ic_updated_at = 5\<rparr>], checks = []\<rparr>"

definition scenario_b_world :: world where
  "scenario_b_world =
     \<lparr>subprocess_run = (\<lambda>argv. Returns \<lparr>returncode = 0, stdout = ''2 packets received''\<rparr>),
      socket_connect = (\<lambda>ip port timeout.
         if port = 443 then Returns ()
         else Raises (Exn ''ConnectionRefusedError'' ''[Errno 111] Connection refused'')),
      socket_close = (\<lambda>ip port. Returns ()),
      http_exchange = (\<lambda>url timeout. Raises (Exn ''ConnectionError'' ''connection refused''))\<rparr>"




definition long_output_world :: world where
  "long_output_world =
     \<lparr>subprocess_run = (\<lambda>argv. Returns \<lparr>returncode = 0, stdout = replicate 2500 CHR ''x''\<rparr>),
      socket_connect = (\<lambda>ip port timeout. Raises (Exn ''TimeoutError'' (replicate 3000 CHR ''t''))),
      socket_close = (\<lambda>ip port. Returns ()),
      http_exchange = (\<lambda>url timeout. Raises (Exn ''ConnectionError'' (replicate 2001 CHR ''e'')))\<rparr>"

definition example_request :: request where
  "example_request =
     \<lparr>authorization = Some ''Bearer s3cret'',
      get_json = Some (JObj [(''ip'', JStr ''198.51.100.9'')]),
      remote_addr = Some ''192.0.2.44''\<rparr>"

definition no_body_request :: request where
  "no_body_request =
     \<lparr>authorization = Some ''Bearer s3cret'',
      get_json = None,
      remote_addr = Some ''192.0.2.44''\<rparr>"

definition array_body_request :: request where
  "array_body_request =
     \<lparr>authorization = Some ''Bearer s3cret'',
      get_json = Some (JArr [JInt 1]),
      remote_addr = Some ''192.0.2.44''\<rparr>"

definition overwrite_during_http :: "nat \<Rightarrow> (string \<times> timestamp) list" where
  "overwrite_during_http i = (if i = 6 then [(''198.51.100.9'', 8)] else [])"

section \<open>Auxiliary facts\<close>

subsection \<open>Decimal texts\<close>

lemma str_int_80: "str_int 80 = ''80''"
  by code_simp

lemma str_int_443: "str_int 443 = ''443''"
  by code_simp



subsection \<open>The two files define the same probes and the same round\<close>

lemma obs_ping_icmp_eq: "obs_ping_icmp = app_ping_icmp"
  by (intro ext) (simp add: obs_ping_icmp_def app_ping_icmp_def)

lemma obs_tcp_connect_eq: "obs_tcp_connect = app_tcp_connect"
  by (intro ext) (simp add: obs_tcp_connect_def app_tcp_connect_def)

lemma obs_http_get_eq: "obs_http_get = app_http_get"
  by (intro ext) (simp add: obs_http_get_def app_http_get_def)

lemma obs_do_check_ports_eq: "obs_do_check_ports w ip ts ports = app_do_check_ports w ip ts ports"
  by (induction ports) (simp_all add: obs_tcp_connect_eq split: outcome.splits prod.splits)

lemma obs_do_check_round_eq: "obs_do_check_round = app_do_check_round"
  by (intro ext) (simp add: obs_do_check_round_def app_do_check_round_def obs_ping_icmp_eq
      obs_http_get_eq obs_do_check_ports_eq split: outcome.splits prod.splits option.splits)

lemma obs_do_check_eq: "obs_do_check = app_do_check"
  by (intro ext) (simp add: obs_do_check_def app_do_check_def obs_do_check_round_eq Let_def
      split: option.splits prod.splits)

lemma obs_do_check_among_eq: "obs_do_check_among = app_do_check_among"
  by (intro ext) (simp add: obs_do_check_among_def app_do_check_among_def obs_do_check_round_eq Let_def
      split: option.splits prod.splits)

subsection \<open>When a probe returns\<close>

lemma app_ping_icmp_returns: "\<exists>ok detail. app_ping_icmp w ip timeout = Returns (ok, detail)"
  by (cases "subprocess_run w [''ping'', ''-c'', ''2'', ''-W'', str_int timeout, ip]")
     (auto simp add: app_ping_icmp_def try_except_def bind_outcome_def Let_def)

lemma app_http_get_returns: "\<exists>ok detail. app_http_get w ip path timeout = Returns (ok, detail)"
  by (cases "requests_get w (''http://'' @ ip @ path) timeout")
     (auto simp add: app_http_get_def try_except_def bind_outcome_def Let_def)

lemma app_tcp_connect_returns:
  "0 \<le> timeout \<Longrightarrow> \<exists>ok detail. app_tcp_connect w ip port timeout = Returns (ok, detail)"
  by (cases "socket_connect w ip port timeout"; cases "socket_close w ip port")
     (auto simp add: app_tcp_connect_def settimeout_def try_except_def bind_outcome_def)


lemma ping_icmp_never_raises:
  "(\<exists>ok detail. app_ping_icmp w ip timeout = Returns (ok, detail)) \<and>
   (\<exists>ok detail. obs_ping_icmp w ip timeout = Returns (ok, detail))"
  using app_ping_icmp_returns by (simp add: obs_ping_icmp_eq)

lemma http_get_never_raises:
  "(\<exists>ok detail. app_http_get w ip path timeout = Returns (ok, detail)) \<and>
   (\<exists>ok detail. obs_http_get w ip path timeout = Returns (ok, detail))"
  using app_http_get_returns by (simp add: obs_http_get_eq)

lemma tcp_connect_converts_connect_errors:
  assumes "0 \<le> timeout"
  shows "app_tcp_connect w ip port timeout =
           (case socket_connect w ip port timeout of
              Raises e \<Rightarrow> Returns (False, str_exn e)
            | Returns _ \<Rightarrow>
                (case socket_close w ip port of
                   Raises e \<Rightarrow> Returns (False, str_exn e)
                 | Returns _ \<Rightarrow> Returns (True, ''tcp:'' @ str_int port @ '' ok'')))"
  using assms
  by (simp add: app_tcp_connect_def settimeout_def try_except_def bind_outcome_def
      split: outcome.splits)


subsection \<open>Row ids and the connection\<close>

lemma next_rowid_Nil: "next_rowid [] = 1"
  by (simp add: next_rowid_def)

lemma next_rowid_Cons: "next_rowid (r # rows) = max (ck_id r + 1) (next_rowid rows)"
  by (simp add: next_rowid_def)

lemma next_rowid_append: "next_rowid (xs @ ys) = max (next_rowid xs) (next_rowid ys)"
proof (induction xs)
  case Nil
  have "0 \<le> foldr max (map ck_id ys) 0"
    by (induction ys) simp_all
  then show ?case by (simp add: next_rowid_def)
next
  case (Cons x xs)
  then show ?case by (simp add: next_rowid_Cons)
qed

lemma next_rowid_pos: "1 \<le> next_rowid rows"
  by (induction rows) (simp_all add: next_rowid_Nil next_rowid_Cons)

lemma db_file_connect: "db_file (sqlite3_connect db) = db"
  by (simp add: sqlite3_connect_def)

lemma db_file_run_event: "ev \<noteq> Commit \<Longrightarrow> db_file (run_event ev c) = db_file c"
  by (cases ev) (simp_all add: execute_def close_def)

lemma db_file_run_events:
  "Commit \<notin> set evs \<Longrightarrow> db_file (run_events evs c) = db_file c"
  unfolding run_events_def
  by (induction evs arbitrary: c) (auto simp add: db_file_run_event)

lemma checks_other_writers:
  "checks (fold apply_write (map (\<lambda>(a, t). Replace_ip_current a t) xs) db) = checks db"
  by (induction xs arbitrary: db) (auto)

lemma run_events_among_none: "run_events_among (\<lambda>i. []) i evs c = run_events evs c"
  by (induction evs arbitrary: i c) (simp_all add: run_events_def)

subsection \<open>The trace of a round\<close>

lemma app_do_check_ports_80_443:
  assumes "app_tcp_connect w ip 80 3 = Returns (ok2, d2)"
    and "app_tcp_connect w ip 443 3 = Returns (ok3, d3)"
  shows "app_do_check_ports w ip ts [80, 443] =
           ([Probe_tcp ip 80, Execute (Insert_check ip ts (int_of_bool ok2) ''tcp:80'' (take 2000 d2)),
             Probe_tcp ip 443, Execute (Insert_check ip ts (int_of_bool ok3) ''tcp:443'' (take 2000 d3))],
            None)"
  using assms by (simp add: str_int_80 str_int_443)

lemma app_do_check_round_trace:
  assumes "app_ping_icmp w ip 2 = Returns (ok1, d1)"
    and "app_tcp_connect w ip 80 3 = Returns (ok2, d2)"
    and "app_tcp_connect w ip 443 3 = Returns (ok3, d3)"
    and "app_http_get w ip (HTTP_CHECK_PATH cfg) 5 = Returns (ok4, d4)"
  shows "app_do_check_round cfg w ts ip =
           ([Probe_icmp ip, Execute (Insert_check ip ts (int_of_bool ok1) ''icmp'' (take 2000 d1)),
             Probe_tcp ip 80, Execute (Insert_check ip ts (int_of_bool ok2) ''tcp:80'' (take 2000 d2)),
             Probe_tcp ip 443, Execute (Insert_check ip ts (int_of_bool ok3) ''tcp:443'' (take 2000 d3)),
             Probe_http ip, Execute (Insert_check ip ts (int_of_bool ok4) ''http'' (take 2000 d4)),
             Commit, Close], None)"
  using assms(1,4) app_do_check_ports_80_443 [OF assms(2,3)]
  by (simp add: app_do_check_round_def)

lemma run_round_events:
  "db_file (run_events
      [Probe_icmp ip, Execute (Insert_check a1 t1 r1 m1 x1),
       Probe_tcp ip 80, Execute (Insert_check a2 t2 r2 m2 x2),
       Probe_tcp ip 443, Execute (Insert_check a3 t3 r3 m3 x3),
       Probe_http ip, Execute (Insert_check a4 t4 r4 m4 x4),
       Commit, Close] (sqlite3_connect db)) =
   db\<lparr>checks := checks db @
      [\<lparr>ck_id = next_rowid (checks db), ck_ip = a1, ck_time = t1, ck_reachable = r1, ck_method = m1, ck_detail = x1\<rparr>,
       \<lparr>ck_id = next_rowid (checks db) + 1, ck_ip = a2, ck_time = t2, ck_reachable = r2, ck_method = m2, ck_detail = x2\<rparr>,
       \<lparr>ck_id = next_rowid (checks db) + 2, ck_ip = a3, ck_time = t3, ck_reachable = r3, ck_method = m3, ck_detail = x3\<rparr>,
       \<lparr>ck_id = next_rowid (checks db) + 3, ck_ip = a4, ck_time = t4, ck_reachable = r4, ck_method = m4, ck_detail = x4\<rparr>]\<rparr>"
  using next_rowid_pos [of "checks db"]
  by (simp add: run_events_def sqlite3_connect_def execute_def commit_def close_def
      next_rowid_append next_rowid_Cons next_rowid_Nil max_def)

lemma app_do_check_with_address:
  assumes "fetchone (select_ip db) = Some ip"
    and "app_ping_icmp w ip 2 = Returns (ok1, d1)"
    and "app_tcp_connect w ip 80 3 = Returns (ok2, d2)"
    and "app_tcp_connect w ip 443 3 = Returns (ok3, d3)"
    and "app_http_get w ip (HTTP_CHECK_PATH cfg) 5 = Returns (ok4, d4)"
  shows "app_do_check cfg w ts db =
           (db\<lparr>checks := checks db @
                  [\<lparr>ck_id = next_rowid (checks db), ck_ip = ip, ck_time = ts,
                     ck_reachable = int_of_bool ok1, ck_method = ''icmp'', ck_detail = take 2000 d1\<rparr>,
                   \<lparr>ck_id = next_rowid (checks db) + 1, ck_ip = ip, ck_time = ts,
                     ck_reachable = int_of_bool ok2, ck_method = ''tcp:80'', ck_detail = take 2000 d2\<rparr>,
                   \<lparr>ck_id = next_rowid (checks db) + 2, ck_ip = ip, ck_time = ts,
                     ck_reachable = int_of_bool ok3, ck_method = ''tcp:443'', ck_detail = take 2000 d3\<rparr>,
                   \<lparr>ck_id = next_rowid (checks db) + 3, ck_ip = ip, ck_time = ts,
                     ck_reachable = int_of_bool ok4, ck_method = ''http'', ck_detail = take 2000 d4\<rparr>]\<rparr>,
            [Probe_icmp ip, Execute (Insert_check ip ts (int_of_bool ok1) ''icmp'' (take 2000 d1)),
             Probe_tcp ip 80, Execute (Insert_check ip ts (int_of_bool ok2) ''tcp:80'' (take 2000 d2)),
             Probe_tcp ip 443, Execute (Insert_check ip ts (int_of_bool ok3) ''tcp:443'' (take 2000 d3)),
             Probe_http ip, Execute (Insert_check ip ts (int_of_bool ok4) ''http'' (take 2000 d4)),
             Commit, Close],
            None)"
  using assms(1) app_do_check_round_trace [OF assms(2-5)] run_round_events
  by (simp add: app_do_check_def sqlite3_connect_def)

lemma app_do_check_without_address:
  "fetchone (select_ip db) = None \<Longrightarrow> app_do_check cfg w ts db = (db, [Close], None)"
  by (simp add: app_do_check_def sqlite3_connect_def run_events_def close_def)

lemma app_do_check_appends:
  "\<exists>evs new. app_do_check cfg w ts db = (db\<lparr>checks := checks db @ new\<rparr>, evs, None) \<and>
      list_all (\<lambda>r. length (ck_detail r) \<le> 2000) new"
proof (cases "fetchone (select_ip db)")
  case None
  then have "app_do_check cfg w ts db = (db\<lparr>checks := checks db @ []\<rparr>, [Close], None)"
    by (simp add: app_do_check_without_address)
  moreover have "list_all (\<lambda>r. length (ck_detail r) \<le> 2000) []"
    by simp
  ultimately show ?thesis
    by blast
next
  case (Some ip)
  obtain ok1 d1 where p1: "app_ping_icmp w ip 2 = Returns (ok1, d1)"
    using app_ping_icmp_returns by blast
  obtain ok2 d2 where p2: "app_tcp_connect w ip 80 3 = Returns (ok2, d2)"
    using app_tcp_connect_returns [of 3] by fastforce
  obtain ok3 d3 where p3: "app_tcp_connect w ip 443 3 = Returns (ok3, d3)"
    using app_tcp_connect_returns [of 3] by fastforce
  obtain ok4 d4 where p4: "app_http_get w ip (HTTP_CHECK_PATH cfg) 5 = Returns (ok4, d4)"
    using app_http_get_returns by blast
  show ?thesis
    unfolding app_do_check_with_address [OF Some p1 p2 p3 p4]
    by (intro exI conjI, rule refl) simp
qed

lemma app_do_check_among_with_address:
  assumes "fetchone (select_ip db) = Some ip"
    and "app_do_check_round cfg w ts ip = (evs, ex)"
  shows "app_do_check_among cfg w ts other db =
           (db_file (run_events_among other 0 evs (sqlite3_connect db)), evs, ex)"
  unfolding app_do_check_among_def Let_def
  by (simp only: db_file_connect assms option.case prod.case)

lemma run_round_events_among:
  "\<exists>new. checks (db_file (run_events_among other 0
      [Probe_icmp ip, Execute (Insert_check a1 t1 r1 m1 x1),
       Probe_tcp ip 80, Execute (Insert_check a2 t2 r2 m2 x2),
       Probe_tcp ip 443, Execute (Insert_check a3 t3 r3 m3 x3),
       Probe_http ip, Execute (Insert_check a4 t4 r4 m4 x4),
       Commit, Close] (sqlite3_connect db))) = checks db @ new \<and>
     map (\<lambda>r. (ck_ip r, ck_time r, ck_method r)) new = [(a1, t1, m1), (a2, t2, m2), (a3, t3, m3), (a4, t4, m4)]"
  by (simp add: sqlite3_connect_def execute_def commit_def close_def checks_other_writers)

lemma do_check_among_none: "app_do_check_among cfg w ts (\<lambda>i. []) db = app_do_check cfg w ts db"
  by (simp add: app_do_check_among_def app_do_check_def run_events_among_none Let_def
      split: option.splits prod.splits)

subsection \<open>Rows in descending time\<close>










subsection \<open>The endpoints\<close>

lemma require_token_authorized:
  assumes "authorization req = Some (''Bearer '' @ API_TOKEN cfg)"
  shows "app_require_token cfg req f db = f db"
  using assms
  by (simp add: app_require_token_def startswith_def split_space_1_def py_index_def Let_def)

lemma require_token_cases:
  "app_require_token cfg req f db = f db \<or> (\<exists>r. app_require_token cfg req f db = (r, db))"
  by (auto simp add: app_require_token_def Let_def split: outcome.splits)

lemma require_token_results:
  "app_require_token cfg req f db = f db \<or>
   app_require_token cfg req f db = (Returns unauthorized, db) \<or>
   (\<exists>e. app_require_token cfg req f db = (Raises e, db))"
  by (auto simp add: app_require_token_def Let_def split: outcome.splits)

lemma update_ip_body_cases:
  "(\<exists>r. app_update_ip_body req now now_iso db = (r, db)) \<or>
   (\<exists>a echo. app_update_ip_body req now now_iso db =
      (Returns \<lparr>body = PyDict [(''ok'', PyBool True), (''ip'', echo), (''timestamp'', PyStr now_iso)],
                status = 200\<rparr>,
       apply_write (Replace_ip_current a now) db))"
  by (auto simp add: app_update_ip_body_def Let_def get_db_def sqlite3_connect_def execute_def
      commit_def close_def split: outcome.splits json.splits)

lemma update_ip_body_results:
  "(\<exists>e. app_update_ip_body req now now_iso db = (Raises e, db)) \<or>
   app_update_ip_body req now now_iso db = (Returns no_ip_provided, db) \<or>
   (\<exists>a echo. app_update_ip_body req now now_iso db =
      (Returns \<lparr>body = PyDict [(''ok'', PyBool True), (''ip'', echo), (''timestamp'', PyStr now_iso)],
                status = 200\<rparr>,
       apply_write (Replace_ip_current a now) db))"
  by (auto simp add: app_update_ip_body_def Let_def get_db_def sqlite3_connect_def execute_def
      commit_def close_def split: outcome.splits json.splits)

lemma app_update_ip_store:
  "snd (app_update_ip cfg req now now_iso db) = db \<or>
   (\<exists>a. snd (app_update_ip cfg req now now_iso db) = apply_write (Replace_ip_current a now) db)"
  using require_token_cases [of cfg req "app_update_ip_body req now now_iso" db]
    update_ip_body_cases [of req now now_iso db]
  unfolding app_update_ip_def by (elim disjE exE) auto

lemma app_update_ip_ok_overwrites:
  assumes "app_update_ip cfg req now now_iso db = (Returns resp, db')" and "status resp = 200"
  shows "\<exists>a. db' = apply_write (Replace_ip_current a now) db"
  using require_token_results [of cfg req "app_update_ip_body req now now_iso" db]
    update_ip_body_results [of req now now_iso db] assms
  unfolding app_update_ip_def
  by (elim disjE exE) (auto simp add: unauthorized_def no_ip_provided_def)

lemma obs_update_ip_store:
  "snd (obs_update_ip cfg req now now_iso db) = snd (app_update_ip cfg req now now_iso db)"
  by (auto simp add: obs_update_ip_def app_update_ip_def app_require_token_def
      app_update_ip_body_def Let_def split: outcome.splits json.splits)

lemma obs_update_ip_status:
  "map_prod (\<lambda>r. case r of Returns resp \<Rightarrow> Some (status resp) | Raises e \<Rightarrow> None) id
     (obs_update_ip cfg req now now_iso db) =
   map_prod (\<lambda>r. case r of Returns resp \<Rightarrow> Some (status resp) | Raises e \<Rightarrow> None) id
     (app_update_ip cfg req now now_iso db)"
  by (auto simp add: obs_update_ip_def app_update_ip_def app_require_token_def
      app_update_ip_body_def Let_def split: outcome.splits json.splits)

lemma obs_update_ip_ok_overwrites:
  assumes "obs_update_ip cfg req now now_iso db = (Returns resp, db')" and "status resp = 200"
  shows "\<exists>a. db' = apply_write (Replace_ip_current a now) db"
proof -
  from obs_update_ip_status [of cfg req now now_iso db] assms
  obtain resp' where "app_update_ip cfg req now now_iso db = (Returns resp', db')" "status resp' = 200"
    by (cases "app_update_ip cfg req now now_iso db"; cases "fst (app_update_ip cfg req now now_iso db)")
       auto
  then show ?thesis
    by (rule app_update_ip_ok_overwrites)
qed

lemma update_ip_fallback:
  assumes "authorization req = Some (''Bearer '' @ API_TOKEN cfg)"
    and "get_json req = None \<or> get_json req = Some JNull \<or>
         (\<exists>kvs. get_json req = Some (JObj kvs) \<and> map_of kvs ''ip'' = None)"
  shows "app_update_ip cfg req now now_iso db =
           (case remote_addr req of
              None \<Rightarrow> (Returns no_ip_provided, db)
            | Some a \<Rightarrow>
                if a = [] then (Returns no_ip_provided, db)
                else (Returns \<lparr>body = PyDict [(''ok'', PyBool True), (''ip'', PyStr a),
                                              (''timestamp'', PyStr now_iso)],
                               status = 200\<rparr>,
                      apply_write (Replace_ip_current a now) db))"
  unfolding app_update_ip_def require_token_authorized [OF assms(1)]
  using assms(2)
  by (auto simp add: app_update_ip_body_def Let_def py_or_def get_db_def sqlite3_connect_def
      execute_def commit_def close_def split: option.splits)

lemma app_status_store: "snd (app_status cfg req db) = db"
  using require_token_cases [of cfg req app_status_body db]
  by (auto simp add: app_status_def app_status_body_def Let_def split: option.splits)

lemma app_history_store: "snd (app_history cfg req db) = db"
  using require_token_cases [of cfg req app_history_body db]
  by (auto simp add: app_history_def app_history_body_def Let_def)

lemma obs_status_store: "snd (obs_status cfg req db) = db"
  by (auto simp add: obs_status_def Let_def split: option.splits)

lemma obs_history_store: "snd (obs_history cfg req db) = db"
  by (simp add: obs_history_def Let_def)

lemma obs_history_eq_body: "obs_history cfg req db = app_history_body db"
  by (simp add: obs_history_def app_history_body_def)

lemma status_with_address:
  assumes "fetchone (select_ip_updated_at db) = Some row"
  shows "obs_status cfg req db = app_status_body db"
  using assms by (cases row) (simp add: obs_status_def app_status_body_def Let_def)

lemma app_status_body_without_address:
  assumes "fetchone (select_ip_updated_at db) = None"
  shows "app_status_body db =
           (Returns \<lparr>body = PyDict [(''status'', PyStr ''no-ip''),
                                     (''last_check'',
                                      (case fetchone (checks_latest 1 db) of None \<Rightarrow> PyNone
                                       | Some r \<Rightarrow> dict_time_reachable_method_detail r))],
                     status = 200\<rparr>, db)"
  using assms by (simp add: app_status_body_def Let_def)

lemma obs_status_without_address:
  assumes "fetchone (select_ip_updated_at db) = None"
  shows "obs_status cfg req db =
           (Returns \<lparr>body = PyDict [(''status'', PyStr ''no-ip'')], status = 200\<rparr>, db)"
  using assms by (simp add: obs_status_def Let_def)

subsection \<open>Runs\<close>

lemma obs_step_eq: "obs_step cfg op db = app_step cfg op db"
  by (cases op)
     (simp_all add: obs_update_ip_store app_status_store app_history_store obs_status_store
       obs_history_store obs_do_check_eq)

lemma obs_run_eq: "obs_run cfg ops = app_run cfg ops"
proof -
  have "obs_step cfg = app_step cfg"
    by (intro ext) (rule obs_step_eq)
  then show ?thesis
    by (simp add: obs_run_def app_run_def)
qed

lemma app_step_cases:
  "app_step cfg op db = db \<or>
   (\<exists>a t. app_step cfg op db = apply_write (Replace_ip_current a t) db) \<or>
   (\<exists>new. app_step cfg op db = db\<lparr>checks := checks db @ new\<rparr> \<and>
          list_all (\<lambda>r. length (ck_detail r) \<le> 2000) new)"
proof (cases op)
  case (Op_update_ip req now now_iso)
  then show ?thesis
    using app_update_ip_store [of cfg req now now_iso db] by auto
next
  case (Op_status req)
  then show ?thesis by (simp add: app_status_store)
next
  case (Op_history req)
  then show ?thesis by (simp add: app_history_store)
next
  case (Op_do_check w ts)
  then show ?thesis
    using app_do_check_appends [of cfg w ts db] by auto
qed

lemma app_step_singleton:
  assumes "ip_current db = [] \<or> (\<exists>a t. ip_current db = [\<lparr>ic_id = 1, ic_ip = a, ic_updated_at = t\<rparr>])"
  shows "ip_current (app_step cfg op db) = [] \<or>
         (\<exists>a t. ip_current (app_step cfg op db) = [\<lparr>ic_id = 1, ic_ip = a, ic_updated_at = t\<rparr>])"
  using app_step_cases [of cfg op db] assms by (elim disjE exE conjE) auto

lemma app_step_details:
  assumes "list_all (\<lambda>r. length (ck_detail r) \<le> 2000) (checks db)"
  shows "list_all (\<lambda>r. length (ck_detail r) \<le> 2000) (checks (app_step cfg op db))"
  using app_step_cases [of cfg op db] assms by (elim disjE exE conjE) auto

lemma fold_app_step_singleton:
  "ip_current db = [] \<or> (\<exists>a t. ip_current db = [\<lparr>ic_id = 1, ic_ip = a, ic_updated_at = t\<rparr>]) \<Longrightarrow>
   ip_current (fold (app_step cfg) ops db) = [] \<or>
   (\<exists>a t. ip_current (fold (app_step cfg) ops db) = [\<lparr>ic_id = 1, ic_ip = a, ic_updated_at = t\<rparr>])"
proof (induction ops arbitrary: db)
  case Nil
  then show ?case by simp
next
  case (Cons op ops)
  from Cons.prems have "ip_current (app_step cfg op db) = [] \<or>
      (\<exists>a t. ip_current (app_step cfg op db) = [\<lparr>ic_id = 1, ic_ip = a, ic_updated_at = t\<rparr>])"
    by (rule app_step_singleton)
  then show ?case
    using Cons.IH [of "app_step cfg op db"] by simp
qed

lemma fold_app_step_details:
  "list_all (\<lambda>r. length (ck_detail r) \<le> 2000) (checks db) \<Longrightarrow>
   list_all (\<lambda>r. length (ck_detail r) \<le> 2000) (checks (fold (app_step cfg) ops db))"
  by (induction ops arbitrary: db) (simp_all add: app_step_details)

lemma app_run_singleton:
  "ip_current (app_run cfg ops) = [] \<or>
   (\<exists>a t. ip_current (app_run cfg ops) = [\<lparr>ic_id = 1, ic_ip = a, ic_updated_at = t\<rparr>])"
  unfolding app_run_def by (rule fold_app_step_singleton) (simp add: init_db_def)

lemma app_run_details:
  "list_all (\<lambda>r. length (ck_detail r) \<le> 2000) (checks (app_run cfg ops))"
  unfolding app_run_def by (rule fold_app_step_details) (simp add: init_db_def)

subsection \<open>Scenario B and two reports of the address\<close>

lemma scenario_b_select: "fetchone (select_ip example_db) = Some ''203.0.113.5''"
  by (simp add: fetchone_def select_ip_def example_db_def)

lemma scenario_b_ping:
  "app_ping_icmp scenario_b_world ''203.0.113.5'' 2 = Returns (True, ''2 packets received'')"
  by (simp add: app_ping_icmp_def scenario_b_world_def try_except_def bind_outcome_def)

lemma scenario_b_tcp_80:
  "app_tcp_connect scenario_b_world ''203.0.113.5'' 80 3 =
     Returns (False, ''[Errno 111] Connection refused'')"
  by (simp add: app_tcp_connect_def scenario_b_world_def settimeout_def try_except_def
      bind_outcome_def)

lemma scenario_b_tcp_443:
  "app_tcp_connect scenario_b_world ''203.0.113.5'' 443 3 = Returns (True, ''tcp:443 ok'')"
  by (simp add: app_tcp_connect_def scenario_b_world_def settimeout_def try_except_def
      bind_outcome_def str_int_443)

lemma scenario_b_http:
  "app_http_get scenario_b_world ''203.0.113.5'' (HTTP_CHECK_PATH example_config) 5 =
     Returns (False, ''connection refused'')"
  by (simp add: app_http_get_def scenario_b_world_def requests_get_def try_except_def
      bind_outcome_def)

lemma scenario_b_overwritten:
  "ip_current (fst (app_do_check_among example_config scenario_b_world 7
                      overwrite_during_http example_db)) =
     [\<lparr>ic_id = 1, ic_ip = ''198.51.100.9'', ic_updated_at = 8\<rparr>]"
  unfolding app_do_check_among_with_address [OF scenario_b_select
      app_do_check_round_trace [OF scenario_b_ping scenario_b_tcp_80 scenario_b_tcp_443 scenario_b_http]]
  by (simp add: sqlite3_connect_def execute_def commit_def close_def
      overwrite_during_http_def example_db_def)

lemma first_report:
  "app_run example_config [Op_update_ip no_body_request 5 ''t5''] =
     \<lparr>ip_current = [\<lparr>ic_id = 1, ic_ip = ''192.0.2.44'', ic_updated_at = 5\<rparr>], checks = []\<rparr>"
proof -
  have auth: "authorization no_body_request = Some (''Bearer '' @ API_TOKEN example_config)"
    by (simp add: no_body_request_def example_config_def)
  have body: "get_json no_body_request = None \<or> get_json no_body_request = Some JNull \<or>
         (\<exists>kvs. get_json no_body_request = Some (JObj kvs) \<and> map_of kvs ''ip'' = None)"
    by (simp add: no_body_request_def)
  have step: "app_update_ip example_config no_body_request 5 ''t5'' init_db =
      (Returns \<lparr>body = PyDict [(''ok'', PyBool True), (''ip'', PyStr ''192.0.2.44''),
                                (''timestamp'', PyStr ''t5'')], status = 200\<rparr>,
       apply_write (Replace_ip_current ''192.0.2.44'' 5) init_db)"
    unfolding update_ip_fallback [OF auth body] by (simp add: no_body_request_def)
  have "app_run example_config [Op_update_ip no_body_request 5 ''t5''] =
      snd (app_update_ip example_config no_body_request 5 ''t5'' init_db)"
    by (simp add: app_run_def)
  also have "\<dots> = apply_write (Replace_ip_current ''192.0.2.44'' 5) init_db"
    by (simp only: step snd_conv)
  also have "\<dots> = \<lparr>ip_current = [\<lparr>ic_id = 1, ic_ip = ''192.0.2.44'', ic_updated_at = 5\<rparr>],
                       checks = []\<rparr>"
    by (simp add: init_db_def)
  finally show ?thesis .
qed

lemma second_report:
  "app_update_ip example_config example_request 8 ''t8''
     \<lparr>ip_current = [\<lparr>ic_id = 1, ic_ip = ''192.0.2.44'', ic_updated_at = 5\<rparr>], checks = []\<rparr> =
   (Returns \<lparr>body = PyDict [(''ok'', PyBool True), (''ip'', PyStr ''198.51.100.9''),
                             (''timestamp'', PyStr ''t8'')], status = 200\<rparr>,
    \<lparr>ip_current = [\<lparr>ic_id = 1, ic_ip = ''198.51.100.9'', ic_updated_at = 8\<rparr>], checks = []\<rparr>)"
proof -
  have auth: "authorization example_request = Some (''Bearer '' @ API_TOKEN example_config)"
    by (simp add: example_request_def example_config_def)
  show ?thesis
    unfolding app_update_ip_def require_token_authorized [OF auth]
    by (simp add: app_update_ip_body_def example_request_def py_or_def get_db_def
        sqlite3_connect_def execute_def commit_def close_def)
qed

section \<open>The claims\<close>

subsection \<open>C1: a round with a tracked address\<close>

text \<open>
  C1. Whenever the store holds a tracked address, \<^verbatim>\<open>do_check\<close> of either file returns
  without an exception and appends exactly four rows to \<open>checks\<close>. The four rows carry the
  address read at the start and the one timestamp \<open>ts\<close> of the round, and their methods
  are icmp, tcp:80, tcp:443 and http, in this order. The trace has one commit, after the
  four inserts: until the commit the database file is unchanged, and the commit publishes
  the four rows together.
\<close>

theorem do_check_four_records_one_commit:
  assumes "fetchone (select_ip db) = Some ip"
  shows "\<exists>ok1 d1 ok2 d2 ok3 d3 ok4 d4 n evs db'.
           app_ping_icmp w ip 2 = Returns (ok1, d1) \<and>
           app_tcp_connect w ip 80 3 = Returns (ok2, d2) \<and>
           app_tcp_connect w ip 443 3 = Returns (ok3, d3) \<and>
           app_http_get w ip (HTTP_CHECK_PATH cfg) 5 = Returns (ok4, d4) \<and>
           n = next_rowid (checks db) \<and>
           evs = [Probe_icmp ip, Execute (Insert_check ip ts (int_of_bool ok1) ''icmp'' (take 2000 d1)),
                  Probe_tcp ip 80, Execute (Insert_check ip ts (int_of_bool ok2) ''tcp:80'' (take 2000 d2)),
                  Probe_tcp ip 443, Execute (Insert_check ip ts (int_of_bool ok3) ''tcp:443'' (take 2000 d3)),
                  Probe_http ip, Execute (Insert_check ip ts (int_of_bool ok4) ''http'' (take 2000 d4)),
                  Commit, Close] \<and>
           db' = db\<lparr>checks := checks db @
                  [\<lparr>ck_id = n, ck_ip = ip, ck_time = ts, ck_reachable = int_of_bool ok1,
                     ck_method = ''icmp'', ck_detail = take 2000 d1\<rparr>,
                   \<lparr>ck_id = n + 1, ck_ip = ip, ck_time = ts, ck_reachable = int_of_bool ok2,
                     ck_method = ''tcp:80'', ck_detail = take 2000 d2\<rparr>,
                   \<lparr>ck_id = n + 2, ck_ip = ip, ck_time = ts, ck_reachable = int_of_bool ok3,
                     ck_method = ''tcp:443'', ck_detail = take 2000 d3\<rparr>,
                   \<lparr>ck_id = n + 3, ck_ip = ip, ck_time = ts, ck_reachable = int_of_bool ok4,
                     ck_method = ''http'', ck_detail = take 2000 d4\<rparr>]\<rparr> \<and>
           app_do_check cfg w ts db = (db', evs, None) \<and>
           obs_do_check cfg w ts db = (db', evs, None) \<and>
           (\<forall>k. k \<le> 8 \<longrightarrow> db_file (run_events (take k evs) (sqlite3_connect db)) = db) \<and>
           db_file (run_events (take 9 evs) (sqlite3_connect db)) = db'"
proof -
  obtain ok1 d1 where p1: "app_ping_icmp w ip 2 = Returns (ok1, d1)"
    using app_ping_icmp_returns by blast
  obtain ok2 d2 where p2: "app_tcp_connect w ip 80 3 = Returns (ok2, d2)"
    using app_tcp_connect_returns [of 3] by fastforce
  obtain ok3 d3 where p3: "app_tcp_connect w ip 443 3 = Returns (ok3, d3)"
    using app_tcp_connect_returns [of 3] by fastforce
  obtain ok4 d4 where p4: "app_http_get w ip (HTTP_CHECK_PATH cfg) 5 = Returns (ok4, d4)"
    using app_http_get_returns by blast
  let ?evs = "[Probe_icmp ip, Execute (Insert_check ip ts (int_of_bool ok1) ''icmp'' (take 2000 d1)),
               Probe_tcp ip 80, Execute (Insert_check ip ts (int_of_bool ok2) ''tcp:80'' (take 2000 d2)),
               Probe_tcp ip 443, Execute (Insert_check ip ts (int_of_bool ok3) ''tcp:443'' (take 2000 d3)),
               Probe_http ip, Execute (Insert_check ip ts (int_of_bool ok4) ''http'' (take 2000 d4)),
               Commit, Close]"
  let ?n = "next_rowid (checks db)"
  let ?db' = "db\<lparr>checks := checks db @
                  [\<lparr>ck_id = ?n, ck_ip = ip, ck_time = ts, ck_reachable = int_of_bool ok1,
                     ck_method = ''icmp'', ck_detail = take 2000 d1\<rparr>,
                   \<lparr>ck_id = ?n + 1, ck_ip = ip, ck_time = ts, ck_reachable = int_of_bool ok2,
                     ck_method = ''tcp:80'', ck_detail = take 2000 d2\<rparr>,
                   \<lparr>ck_id = ?n + 2, ck_ip = ip, ck_time = ts, ck_reachable = int_of_bool ok3,
                     ck_method = ''tcp:443'', ck_detail = take 2000 d3\<rparr>,
                   \<lparr>ck_id = ?n + 3, ck_ip = ip, ck_time = ts, ck_reachable = int_of_bool ok4,
                     ck_method = ''http'', ck_detail = take 2000 d4\<rparr>]\<rparr>"
  have app: "app_do_check cfg w ts db = (?db', ?evs, None)"
    by (rule app_do_check_with_address [OF assms p1 p2 p3 p4])
  have obs: "obs_do_check cfg w ts db = (?db', ?evs, None)"
    unfolding obs_do_check_eq by (rule app)
  have run: "db_file (run_events ?evs (sqlite3_connect db)) = ?db'"
    by (rule run_round_events)
  have before: "db_file (run_events (take k ?evs) (sqlite3_connect db)) = db" if "k \<le> 8" for k
  proof -
    have "set (take k ?evs) \<subseteq> set (take 8 ?evs)"
      using that by (rule set_take_subset_set_take)
    then have "Commit \<notin> set (take k ?evs)"
      by auto
    then show ?thesis
      by (simp add: db_file_run_events sqlite3_connect_def)
  qed
  have at_commit: "db_file (run_events (take 9 ?evs) (sqlite3_connect db)) = ?db'"
    using run by (simp add: run_events_def close_def)
  show ?thesis
  proof (intro exI conjI allI impI)
    show "app_ping_icmp w ip 2 = Returns (ok1, d1)" by (rule p1)
    show "app_tcp_connect w ip 80 3 = Returns (ok2, d2)" by (rule p2)
    show "app_tcp_connect w ip 443 3 = Returns (ok3, d3)" by (rule p3)
    show "app_http_get w ip (HTTP_CHECK_PATH cfg) 5 = Returns (ok4, d4)" by (rule p4)
    show "?n = next_rowid (checks db)" by (rule refl)
    show "?evs = ?evs" by (rule refl)
    show "?db' = ?db'" by (rule refl)
    show "app_do_check cfg w ts db = (?db', ?evs, None)" by (rule app)
    show "obs_do_check cfg w ts db = (?db', ?evs, None)" by (rule obs)
    show "db_file (run_events (take k ?evs) (sqlite3_connect db)) = db" if "k \<le> 8" for k
      using that by (rule before)
    show "db_file (run_events (take 9 ?evs) (sqlite3_connect db)) = ?db'" by (rule at_commit)
  qed
qed

text \<open>
  The round of the specification's scenario B: ICMP and TCP 443 succeed, TCP 80 and HTTP
  fail.
\<close>

theorem do_check_four_records_one_commit_witness:
  "fetchone (select_ip example_db) = Some ''203.0.113.5'' \<and>
   map (\<lambda>r. (ck_ip r, ck_time r, ck_reachable r, ck_method r))
     (checks (fst (app_do_check example_config scenario_b_world 7 example_db))) =
     [(''203.0.113.5'', 7, 1, ''icmp''), (''203.0.113.5'', 7, 0, ''tcp:80''),
      (''203.0.113.5'', 7, 1, ''tcp:443''), (''203.0.113.5'', 7, 0, ''http'')]"
proof -
  from do_check_four_records_one_commit [OF scenario_b_select, of scenario_b_world example_config 7]
  obtain ok1 d1 ok2 d2 ok3 d3 ok4 d4 db' evs where
    r1: "app_ping_icmp scenario_b_world ''203.0.113.5'' 2 = Returns (ok1, d1)" and
    r2: "app_tcp_connect scenario_b_world ''203.0.113.5'' 80 3 = Returns (ok2, d2)" and
    r3: "app_tcp_connect scenario_b_world ''203.0.113.5'' 443 3 = Returns (ok3, d3)" and
    r4: "app_http_get scenario_b_world ''203.0.113.5'' (HTTP_CHECK_PATH example_config) 5 = Returns (ok4, d4)" and
    db': "db' = example_db\<lparr>checks := checks example_db @
                  [\<lparr>ck_id = next_rowid (checks example_db), ck_ip = ''203.0.113.5'', ck_time = 7,
                     ck_reachable = int_of_bool ok1, ck_method = ''icmp'', ck_detail = take 2000 d1\<rparr>,
                   \<lparr>ck_id = next_rowid (checks example_db) + 1, ck_ip = ''203.0.113.5'', ck_time = 7,
                     ck_reachable = int_of_bool ok2, ck_method = ''tcp:80'', ck_detail = take 2000 d2\<rparr>,
                   \<lparr>ck_id = next_rowid (checks example_db) + 2, ck_ip = ''203.0.113.5'', ck_time = 7,
                     ck_reachable = int_of_bool ok3, ck_method = ''tcp:443'', ck_detail = take 2000 d3\<rparr>,
                   \<lparr>ck_id = next_rowid (checks example_db) + 3, ck_ip = ''203.0.113.5'', ck_time = 7,
                     ck_reachable = int_of_bool ok4, ck_method = ''http'', ck_detail = take 2000 d4\<rparr>]\<rparr>" and
    run: "app_do_check example_config scenario_b_world 7 example_db = (db', evs, None)"
    by (elim exE conjE) (erule that, assumption+, simp)
  have oks: "ok1" "\<not> ok2" "ok3" "\<not> ok4"
    using r1 r2 r3 r4
    by (simp_all add: scenario_b_ping scenario_b_tcp_80 scenario_b_tcp_443 scenario_b_http)
  have "map (\<lambda>r. (ck_ip r, ck_time r, ck_reachable r, ck_method r)) (checks db') =
     [(''203.0.113.5'', 7, 1, ''icmp''), (''203.0.113.5'', 7, 0, ''tcp:80''),
      (''203.0.113.5'', 7, 1, ''tcp:443''), (''203.0.113.5'', 7, 0, ''http'')]"
    unfolding db' using oks by (simp add: int_of_bool_def example_db_def)
  then show ?thesis
    using scenario_b_select run by simp
qed

subsection \<open>C2: what leaves a probe\<close>


subsection \<open>C3: the HTTP check\<close>




subsection \<open>C4: a round without a tracked address\<close>

text \<open>
  C4. Without a tracked address \<^verbatim>\<open>do_check\<close> of either file only closes its connection: the
  trace holds no probe and no insert, the database file is unchanged and no exception
  leaves the function.
\<close>

theorem do_check_without_address_is_noop:
  assumes "fetchone (select_ip db) = None"
  shows "app_do_check cfg w ts db = (db, [Close], None) \<and>
         obs_do_check cfg w ts db = (db, [Close], None)"
  using assms
  by (simp add: app_do_check_def obs_do_check_def sqlite3_connect_def run_events_def close_def)

theorem do_check_without_address_is_noop_witness:
  "fetchone (select_ip init_db) = None \<and>
   app_do_check example_config scenario_b_world 7 init_db = (init_db, [Close], None) \<and>
   obs_do_check example_config scenario_b_world 7 init_db = (init_db, [Close], None)"
proof -
  have h: "fetchone (select_ip init_db) = None"
    by (simp add: fetchone_def select_ip_def init_db_def)
  from do_check_without_address_is_noop [OF h] show ?thesis
    using h by simp
qed

subsection \<open>C5: the newest rows\<close>



subsection \<open>C6: the length of a persisted detail\<close>

text \<open>
  C6. \<^verbatim>\<open>do_check\<close> of either file never ends in an exception, whatever the probes
  answer, and every row it appends has a detail of at most 2000 characters. So every row
  of every run that starts from the empty store has one.
\<close>

theorem persisted_detail_at_most_2000:
  "(\<exists>db' evs new.
      app_do_check cfg w ts db = (db', evs, None) \<and>
      obs_do_check cfg w ts db = (db', evs, None) \<and>
      checks db' = checks db @ new \<and>
      list_all (\<lambda>r. length (ck_detail r) \<le> 2000) new) \<and>
   list_all (\<lambda>r. length (ck_detail r) \<le> 2000) (checks (app_run cfg ops)) \<and>
   list_all (\<lambda>r. length (ck_detail r) \<le> 2000) (checks (obs_run cfg ops))"
proof -
  obtain evs new where
    "app_do_check cfg w ts db = (db\<lparr>checks := checks db @ new\<rparr>, evs, None)"
    "list_all (\<lambda>r. length (ck_detail r) \<le> 2000) new"
    using app_do_check_appends by blast
  then have "\<exists>db' evs new.
      app_do_check cfg w ts db = (db', evs, None) \<and>
      obs_do_check cfg w ts db = (db', evs, None) \<and>
      checks db' = checks db @ new \<and>
      list_all (\<lambda>r. length (ck_detail r) \<le> 2000) new"
    by (simp add: obs_do_check_eq)
  then show ?thesis
    using app_run_details [of cfg ops] by (simp add: obs_run_eq)
qed

text \<open>A round whose four diagnostics are 2500, 3000, 3000 and 2001 characters long.\<close>

theorem persisted_detail_at_most_2000_witness:
  "map (\<lambda>r. length (ck_detail r))
     (checks (fst (app_do_check example_config long_output_world 7 example_db))) =
     [2000, 2000, 2000, 2000]"
proof -
  have h: "fetchone (select_ip example_db) = Some ''203.0.113.5''"
    by (simp add: fetchone_def select_ip_def example_db_def)
  have q1: "app_ping_icmp long_output_world ''203.0.113.5'' 2 =
              Returns (True, replicate 2000 CHR ''x'')"
    by (simp add: app_ping_icmp_def long_output_world_def try_except_def bind_outcome_def)
  have q2: "app_tcp_connect long_output_world ''203.0.113.5'' 80 3 =
              Returns (False, replicate 3000 CHR ''t'')"
    by (simp add: app_tcp_connect_def long_output_world_def settimeout_def try_except_def
        bind_outcome_def)
  have q3: "app_tcp_connect long_output_world ''203.0.113.5'' 443 3 =
              Returns (False, replicate 3000 CHR ''t'')"
    by (simp add: app_tcp_connect_def long_output_world_def settimeout_def try_except_def
        bind_outcome_def)
  have q4: "app_http_get long_output_world ''203.0.113.5'' (HTTP_CHECK_PATH example_config) 5 =
              Returns (False, replicate 2001 CHR ''e'')"
    by (simp add: app_http_get_def long_output_world_def requests_get_def try_except_def
        bind_outcome_def)
  have run: "map (\<lambda>r. length (ck_detail r))
     (checks (fst (app_do_check example_config long_output_world 7 example_db))) =
     [2000, 2000, 2000, 2000]"
    unfolding app_do_check_with_address [OF h q1 q2 q3 q4]
    by (simp add: example_db_def)
  from persisted_detail_at_most_2000 [of example_config long_output_world 7 example_db "[]"]
  have "list_all (\<lambda>r. length (ck_detail r) \<le> 2000)
          (checks (fst (app_do_check example_config long_output_world 7 example_db)))"
    by (auto simp add: example_db_def)
  with run show ?thesis
    by simp
qed

subsection \<open>C7: one tracked address\<close>

text \<open>
  C7. After every sequence of operations on the empty store, in either service,
  \<open>ip_current\<close> is empty or holds the single row of id 1. An \<^verbatim>\<open>update_ip\<close> answered with
  status 200 leaves exactly that row, with the time of this update: it replaces the row
  and adds none.
\<close>

theorem ip_current_at_most_one_row:
  "(ip_current (app_run cfg ops) = [] \<or>
    (\<exists>a t. ip_current (app_run cfg ops) = [\<lparr>ic_id = 1, ic_ip = a, ic_updated_at = t\<rparr>])) \<and>
   (ip_current (obs_run cfg ops) = [] \<or>
    (\<exists>a t. ip_current (obs_run cfg ops) = [\<lparr>ic_id = 1, ic_ip = a, ic_updated_at = t\<rparr>])) \<and>
   (\<forall>resp db'. app_update_ip cfg req now now_iso (app_run cfg ops) = (Returns resp, db') \<and>
        status resp = 200 \<longrightarrow>
        (\<exists>a. ip_current db' = [\<lparr>ic_id = 1, ic_ip = a, ic_updated_at = now\<rparr>])) \<and>
   (\<forall>resp db'. obs_update_ip cfg req now now_iso (obs_run cfg ops) = (Returns resp, db') \<and>
        status resp = 200 \<longrightarrow>
        (\<exists>a. ip_current db' = [\<lparr>ic_id = 1, ic_ip = a, ic_updated_at = now\<rparr>]))"
proof -
  let ?db = "app_run cfg ops"
  have inv: "ip_current ?db = [] \<or>
    (\<exists>a t. ip_current ?db = [\<lparr>ic_id = 1, ic_ip = a, ic_updated_at = t\<rparr>])"
    by (rule app_run_singleton)
  have replaced: "\<exists>a. ip_current db' = [\<lparr>ic_id = 1, ic_ip = a, ic_updated_at = now\<rparr>]"
    if "\<exists>a. db' = apply_write (Replace_ip_current a now) ?db" for db'
    using that inv by (elim disjE exE) auto
  have app: "\<exists>a. ip_current db' = [\<lparr>ic_id = 1, ic_ip = a, ic_updated_at = now\<rparr>]"
    if "app_update_ip cfg req now now_iso ?db = (Returns resp, db')" "status resp = 200"
    for resp db'
    using that by (intro replaced app_update_ip_ok_overwrites)
  have obs: "\<exists>a. ip_current db' = [\<lparr>ic_id = 1, ic_ip = a, ic_updated_at = now\<rparr>]"
    if "obs_update_ip cfg req now now_iso ?db = (Returns resp, db')" "status resp = 200"
    for resp db'
    using that by (intro replaced obs_update_ip_ok_overwrites)
  from inv app obs show ?thesis
    unfolding obs_run_eq by blast
qed

text \<open>Two reports in a row: the second address replaces the first.\<close>

theorem ip_current_at_most_one_row_witness:
  "app_update_ip example_config example_request 8 ''t8''
     (app_run example_config [Op_update_ip no_body_request 5 ''t5'']) =
   (Returns \<lparr>body = PyDict [(''ok'', PyBool True), (''ip'', PyStr ''198.51.100.9''),
                             (''timestamp'', PyStr ''t8'')], status = 200\<rparr>,
    \<lparr>ip_current = [\<lparr>ic_id = 1, ic_ip = ''198.51.100.9'', ic_updated_at = 8\<rparr>], checks = []\<rparr>) \<and>
   (\<exists>a. ip_current \<lparr>ip_current = [\<lparr>ic_id = 1, ic_ip = ''198.51.100.9'', ic_updated_at = 8\<rparr>],
                     checks = []\<rparr> =
        [\<lparr>ic_id = 1, ic_ip = a, ic_updated_at = 8\<rparr>])"
proof -
  have run: "app_update_ip example_config example_request 8 ''t8''
     (app_run example_config [Op_update_ip no_body_request 5 ''t5'']) =
   (Returns \<lparr>body = PyDict [(''ok'', PyBool True), (''ip'', PyStr ''198.51.100.9''),
                             (''timestamp'', PyStr ''t8'')], status = 200\<rparr>,
    \<lparr>ip_current = [\<lparr>ic_id = 1, ic_ip = ''198.51.100.9'', ic_updated_at = 8\<rparr>], checks = []\<rparr>)"
    unfolding first_report by (rule second_report)
  note inst = ip_current_at_most_one_row
    [of example_config "[Op_update_ip no_body_request 5 ''t5'']" example_request 8 "''t8''"]
  note overwrite = inst [THEN conjunct2, THEN conjunct2, THEN conjunct1, THEN spec, THEN spec, THEN mp]
  have ok: "status \<lparr>body = PyDict [(''ok'', PyBool True), (''ip'', PyStr ''198.51.100.9''),
                                  (''timestamp'', PyStr ''t8'')], status = 200\<rparr> = 200"
    by simp
  have "\<exists>a. ip_current \<lparr>ip_current = [\<lparr>ic_id = 1, ic_ip = ''198.51.100.9'', ic_updated_at = 8\<rparr>],
                     checks = []\<rparr> =
        [\<lparr>ic_id = 1, ic_ip = a, ic_updated_at = 8\<rparr>]"
    by (rule overwrite [OF conjI [OF run ok]])
  with run show ?thesis
    by (rule conjI)
qed

subsection \<open>C8: the two services side by side\<close>

text \<open>
  C8, as stated, fails. On the empty store, for a request with the valid token, the
  status query of \<^verbatim>\<open>src/app.py\<close> answers with the fields \<open>status\<close> and \<open>last_check\<close>, the
  one of \<^verbatim>\<open>src/aws-internet-observer.py\<close> with the field \<open>status\<close> only.
\<close>

theorem status_without_address_differs:
  "app_status example_config example_request init_db =
     (Returns \<lparr>body = PyDict [(''status'', PyStr ''no-ip''), (''last_check'', PyNone)],
               status = 200\<rparr>, init_db) \<and>
   obs_status example_config example_request init_db =
     (Returns \<lparr>body = PyDict [(''status'', PyStr ''no-ip'')], status = 200\<rparr>, init_db) \<and>
   app_status example_config example_request init_db \<noteq>
     obs_status example_config example_request init_db"
proof -
  have auth: "authorization example_request = Some (''Bearer '' @ API_TOKEN example_config)"
    by (simp add: example_request_def example_config_def)
  have none: "fetchone (select_ip_updated_at init_db) = None"
    by (simp add: fetchone_def select_ip_updated_at_def init_db_def)
  have last: "fetchone (checks_latest 1 init_db) = None"
    by (simp add: fetchone_def checks_latest_def order_by_time_desc_def init_db_def)
  have app: "app_status example_config example_request init_db =
     (Returns \<lparr>body = PyDict [(''status'', PyStr ''no-ip''), (''last_check'', PyNone)],
               status = 200\<rparr>, init_db)"
    unfolding app_status_def require_token_authorized [OF auth]
      app_status_body_without_address [OF none] last
    by simp
  have obs: "obs_status example_config example_request init_db =
     (Returns \<lparr>body = PyDict [(''status'', PyStr ''no-ip'')], status = 200\<rparr>, init_db)"
    by (rule obs_status_without_address [OF none])
  show ?thesis
    unfolding app obs by simp
qed

text \<open>
  C8, amended. The three probes and \<^verbatim>\<open>do_check\<close> of the two files return the same
  results on the same inputs. For a request that carries the valid bearer token the
  history queries return the same response, and so do the status queries whenever a
  tracked address is set. When none is set, \<^verbatim>\<open>src/aws-internet-observer.py\<close> answers
  \<open>{"status": "no-ip"}\<close> and \<^verbatim>\<open>src/app.py\<close> adds the field \<open>last_check\<close> to it.
\<close>

theorem services_agree_except_status_without_address:
  "obs_ping_icmp w ip timeout = app_ping_icmp w ip timeout \<and>
   obs_tcp_connect w ip port timeout = app_tcp_connect w ip port timeout \<and>
   obs_http_get w ip path timeout = app_http_get w ip path timeout \<and>
   obs_do_check cfg w ts db = app_do_check cfg w ts db \<and>
   (authorization req = Some (''Bearer '' @ API_TOKEN cfg) \<longrightarrow>
      obs_history cfg req db = app_history cfg req db \<and>
      (fetchone (select_ip_updated_at db) \<noteq> None \<longrightarrow>
         obs_status cfg req db = app_status cfg req db) \<and>
      (fetchone (select_ip_updated_at db) = None \<longrightarrow>
         obs_status cfg req db =
           (Returns \<lparr>body = PyDict [(''status'', PyStr ''no-ip'')], status = 200\<rparr>, db) \<and>
         app_status cfg req db =
           (Returns \<lparr>body = PyDict [(''status'', PyStr ''no-ip''),
                                     (''last_check'',
                                      (case fetchone (checks_latest 1 db) of None \<Rightarrow> PyNone
                                       | Some r \<Rightarrow> dict_time_reachable_method_detail r))],
                     status = 200\<rparr>, db)))"
proof -
  have probes: "obs_ping_icmp w ip timeout = app_ping_icmp w ip timeout"
    "obs_tcp_connect w ip port timeout = app_tcp_connect w ip port timeout"
    "obs_http_get w ip path timeout = app_http_get w ip path timeout"
    "obs_do_check cfg w ts db = app_do_check cfg w ts db"
    by (simp_all only: obs_ping_icmp_eq obs_tcp_connect_eq obs_http_get_eq obs_do_check_eq)
  have endpoints:
    "obs_history cfg req db = app_history cfg req db \<and>
      (fetchone (select_ip_updated_at db) \<noteq> None \<longrightarrow>
         obs_status cfg req db = app_status cfg req db) \<and>
      (fetchone (select_ip_updated_at db) = None \<longrightarrow>
         obs_status cfg req db =
           (Returns \<lparr>body = PyDict [(''status'', PyStr ''no-ip'')], status = 200\<rparr>, db) \<and>
         app_status cfg req db =
           (Returns \<lparr>body = PyDict [(''status'', PyStr ''no-ip''),
                                     (''last_check'',
                                      (case fetchone (checks_latest 1 db) of None \<Rightarrow> PyNone
                                       | Some r \<Rightarrow> dict_time_reachable_method_detail r))],
                     status = 200\<rparr>, db))"
    if auth: "authorization req = Some (''Bearer '' @ API_TOKEN cfg)"
  proof (intro conjI impI)
    show "obs_history cfg req db = app_history cfg req db"
      unfolding app_history_def require_token_authorized [OF auth] by (rule obs_history_eq_body)
    show "obs_status cfg req db = app_status cfg req db"
      if "fetchone (select_ip_updated_at db) \<noteq> None"
    proof -
      from that obtain row where "fetchone (select_ip_updated_at db) = Some row"
        by (cases "fetchone (select_ip_updated_at db)") simp_all
      then show ?thesis
        unfolding app_status_def require_token_authorized [OF auth] by (rule status_with_address)
    qed
    show "obs_status cfg req db =
           (Returns \<lparr>body = PyDict [(''status'', PyStr ''no-ip'')], status = 200\<rparr>, db)"
      if "fetchone (select_ip_updated_at db) = None"
      using that by (rule obs_status_without_address)
    show "app_status cfg req db =
           (Returns \<lparr>body = PyDict [(''status'', PyStr ''no-ip''),
                                     (''last_check'',
                                      (case fetchone (checks_latest 1 db) of None \<Rightarrow> PyNone
                                       | Some r \<Rightarrow> dict_time_reachable_method_detail r))],
                     status = 200\<rparr>, db)"
      if "fetchone (select_ip_updated_at db) = None"
      unfolding app_status_def require_token_authorized [OF auth]
      using that by (rule app_status_body_without_address)
  qed
  show ?thesis
    by (rule conjI [OF probes(1) conjI [OF probes(2) conjI [OF probes(3)
          conjI [OF probes(4) impI [OF endpoints]]]]])
qed

theorem services_agree_except_status_without_address_witness:
  "authorization example_request = Some (''Bearer '' @ API_TOKEN example_config) \<and>
   fetchone (select_ip_updated_at example_db) \<noteq> None \<and>
   obs_status example_config example_request example_db =
     app_status example_config example_request example_db \<and>
   obs_history example_config example_request example_db =
     app_history example_config example_request example_db"
proof -
  have auth: "authorization example_request = Some (''Bearer '' @ API_TOKEN example_config)"
    by (simp add: example_request_def example_config_def)
  have some: "fetchone (select_ip_updated_at example_db) \<noteq> None"
    by (simp add: fetchone_def select_ip_updated_at_def example_db_def)
  note agree = services_agree_except_status_without_address
      [of scenario_b_world "''203.0.113.5''" 2 80 "''/health''" example_config 7 example_db example_request]
  note endpoints = agree [THEN conjunct2, THEN conjunct2, THEN conjunct2, THEN conjunct2, THEN mp, OF auth]
  note history = endpoints [THEN conjunct1]
  note status = endpoints [THEN conjunct2, THEN conjunct1, THEN mp, OF some]
  show ?thesis
    by (intro conjI auth some status history)
qed

subsection \<open>C9: the address of a round\<close>

text \<open>
  C9. \<^verbatim>\<open>do_check\<close> reads the tracked address once, before its first probe. Whatever
  overwrites of the tracked address other connections commit between the events of the
  round, the four probes are run against the address read at the start, and the four
  rows the round appends carry that address and the one timestamp of the round.
  Without other writers the round is \<^verbatim>\<open>do_check\<close> itself.
\<close>

theorem round_keeps_address_read_at_start:
  assumes "fetchone (select_ip db) = Some ip"
  shows "\<exists>db' ins1 ins2 ins3 ins4 new.
           app_do_check_among cfg w ts other db =
             (db', [Probe_icmp ip, Execute ins1, Probe_tcp ip 80, Execute ins2,
                    Probe_tcp ip 443, Execute ins3, Probe_http ip, Execute ins4,
                    Commit, Close], None) \<and>
           obs_do_check_among cfg w ts other db = app_do_check_among cfg w ts other db \<and>
           app_do_check_among cfg w ts (\<lambda>i. []) db = app_do_check cfg w ts db \<and>
           checks db' = checks db @ new \<and>
           map (\<lambda>r. (ck_ip r, ck_time r, ck_method r)) new =
             [(ip, ts, ''icmp''), (ip, ts, ''tcp:80''), (ip, ts, ''tcp:443''), (ip, ts, ''http'')]"
proof -
  obtain ok1 d1 where p1: "app_ping_icmp w ip 2 = Returns (ok1, d1)"
    using app_ping_icmp_returns by blast
  obtain ok2 d2 where p2: "app_tcp_connect w ip 80 3 = Returns (ok2, d2)"
    using app_tcp_connect_returns [of 3] by fastforce
  obtain ok3 d3 where p3: "app_tcp_connect w ip 443 3 = Returns (ok3, d3)"
    using app_tcp_connect_returns [of 3] by fastforce
  obtain ok4 d4 where p4: "app_http_get w ip (HTTP_CHECK_PATH cfg) 5 = Returns (ok4, d4)"
    using app_http_get_returns by blast
  let ?i1 = "Insert_check ip ts (int_of_bool ok1) ''icmp'' (take 2000 d1)"
  let ?i2 = "Insert_check ip ts (int_of_bool ok2) ''tcp:80'' (take 2000 d2)"
  let ?i3 = "Insert_check ip ts (int_of_bool ok3) ''tcp:443'' (take 2000 d3)"
  let ?i4 = "Insert_check ip ts (int_of_bool ok4) ''http'' (take 2000 d4)"
  let ?evs = "[Probe_icmp ip, Execute ?i1, Probe_tcp ip 80, Execute ?i2,
               Probe_tcp ip 443, Execute ?i3, Probe_http ip, Execute ?i4, Commit, Close]"
  let ?db' = "db_file (run_events_among other 0 ?evs (sqlite3_connect db))"
  have round: "app_do_check_round cfg w ts ip = (?evs, None)"
    by (rule app_do_check_round_trace [OF p1 p2 p3 p4])
  have among: "app_do_check_among cfg w ts other db = (?db', ?evs, None)"
    by (rule app_do_check_among_with_address [OF assms round])
  obtain new where new: "checks ?db' = checks db @ new"
    "map (\<lambda>r. (ck_ip r, ck_time r, ck_method r)) new =
       [(ip, ts, ''icmp''), (ip, ts, ''tcp:80''), (ip, ts, ''tcp:443''), (ip, ts, ''http'')]"
    using run_round_events_among [of other ip
        ip ts "int_of_bool ok1" "''icmp''" "take 2000 d1"
        ip ts "int_of_bool ok2" "''tcp:80''" "take 2000 d2"
        ip ts "int_of_bool ok3" "''tcp:443''" "take 2000 d3"
        ip ts "int_of_bool ok4" "''http''" "take 2000 d4" db]
    by (elim exE conjE) (rule that)
  show ?thesis
  proof (intro exI conjI)
    show "app_do_check_among cfg w ts other db = (?db', ?evs, None)"
      by (rule among)
    show "obs_do_check_among cfg w ts other db = app_do_check_among cfg w ts other db"
      by (simp only: obs_do_check_among_eq)
    show "app_do_check_among cfg w ts (\<lambda>i. []) db = app_do_check cfg w ts db"
      by (rule do_check_among_none)
    show "checks ?db' = checks db @ new"
      by (rule new(1))
    show "map (\<lambda>r. (ck_ip r, ck_time r, ck_method r)) new =
       [(ip, ts, ''icmp''), (ip, ts, ''tcp:80''), (ip, ts, ''tcp:443''), (ip, ts, ''http'')]"
      by (rule new(2))
  qed
qed

text \<open>
  The tracked address is overwritten while the HTTP probe runs: the store then tracks
  the new address, and the four rows of the round carry the old one.
\<close>

theorem round_keeps_address_read_at_start_witness:
  "fetchone (select_ip example_db) = Some ''203.0.113.5'' \<and>
   ip_current (fst (app_do_check_among example_config scenario_b_world 7
                      overwrite_during_http example_db)) =
     [\<lparr>ic_id = 1, ic_ip = ''198.51.100.9'', ic_updated_at = 8\<rparr>] \<and>
   (\<exists>db' ins1 ins2 ins3 ins4 new.
      app_do_check_among example_config scenario_b_world 7 overwrite_during_http example_db =
        (db', [Probe_icmp ''203.0.113.5'', Execute ins1, Probe_tcp ''203.0.113.5'' 80, Execute ins2,
               Probe_tcp ''203.0.113.5'' 443, Execute ins3, Probe_http ''203.0.113.5'', Execute ins4,
               Commit, Close], None) \<and>
      obs_do_check_among example_config scenario_b_world 7 overwrite_during_http example_db =
        app_do_check_among example_config scenario_b_world 7 overwrite_during_http example_db \<and>
      app_do_check_among example_config scenario_b_world 7 (\<lambda>i. []) example_db =
        app_do_check example_config scenario_b_world 7 example_db \<and>
      checks db' = checks example_db @ new \<and>
      map (\<lambda>r. (ck_ip r, ck_time r, ck_method r)) new =
        [(''203.0.113.5'', 7, ''icmp''), (''203.0.113.5'', 7, ''tcp:80''),
         (''203.0.113.5'', 7, ''tcp:443''), (''203.0.113.5'', 7, ''http'')])"
  by (intro conjI scenario_b_select scenario_b_overwritten
      round_keeps_address_read_at_start [OF scenario_b_select])

subsection \<open>C10: an update without an address\<close>

text \<open>
  C10. For a request with the valid token whose body is not parseable JSON, or is a JSON
  object without \<open>ip\<close>, \<^verbatim>\<open>update_ip\<close> does track the remote address, and answers 400 when
  there is none (\<open>update_ip_fallback\<close>). But a body that is JSON and no object carries no
  \<open>ip\<close> field either: for the body \<open>[1]\<close>, \<^verbatim>\<open>data.get\<close> raises AttributeError in both
  files, the remote address is not used and the store is unchanged.
\<close>

theorem update_ip_array_body_raises:
  "app_update_ip example_config array_body_request now now_iso db =
     (Raises (Exn ''AttributeError'' ''list object has no attribute get''), db) \<and>
   obs_update_ip example_config array_body_request now now_iso db =
     (Raises (Exn ''AttributeError'' ''list object has no attribute get''), db)"
proof -
  have auth: "authorization array_body_request = Some (''Bearer '' @ API_TOKEN example_config)"
    by (simp add: array_body_request_def example_config_def)
  have app: "app_update_ip example_config array_body_request now now_iso db =
     (Raises (Exn ''AttributeError'' ''list object has no attribute get''), db)"
    unfolding app_update_ip_def require_token_authorized [OF auth]
    by (simp add: app_update_ip_body_def array_body_request_def py_or_def)
  have obs: "obs_update_ip example_config array_body_request now now_iso db =
     (Raises (Exn ''AttributeError'' ''list object has no attribute get''), db)"
    by (simp add: obs_update_ip_def array_body_request_def example_config_def startswith_def
        split_space_1_def py_index_def py_or_def)
  from app obs show ?thesis
    by (rule conjI)
qed

end
